theory Spec2Isabelle
  imports Main "HOL-Library.Word" "HOL-Library.Signed_Division"
begin

unbundle bit_operations_syntax

section \<open>The SX127X chip as seen over the SPI bus\<close>

text \<open>
  The driver \<^verbatim>\<open>spi-sx1278.c\<close> talks to the chip through two functions only,
  \<^verbatim>\<open>sx127X_read_reg\<close> and \<^verbatim>\<open>sx127X_write_reg\<close>. The chip is modelled as the
  state those two functions act on.

  The header \<^verbatim>\<open>sx1278.h\<close> with the numeric register addresses is not among the
  sources, so a register is identified by the name of its macro. A burst access of
  several bytes walks the address space upwards; the register one address after
  \<open>r\<close> is \<open>Following r\<close>. The driver starts a burst only at \<^verbatim>\<open>SX127X_REG_FRF_MSB\<close>,
  \<^verbatim>\<open>SX127X_REG_MODEM_CONFIG2\<close>, \<^verbatim>\<open>SX127X_REG_PREAMBLE_MSB\<close> and at the FIFO.
\<close>

type_synonym u8 = "8 word"
type_synonym u32 = "32 word"
type_synonym u64 = "64 word"

datatype reg =
    SX127X_REG_FIFO
  | SX127X_REG_OP_MODE
  | SX127X_REG_FRF_MSB
  | SX127X_REG_PA_CONFIG
  | SX127X_REG_LNA
  | SX127X_REG_FIFO_ADDR_PTR
  | SX127X_REG_FIFO_TX_BASE_ADDR
  | SX127X_REG_FIFO_RX_BASE_ADDR
  | SX127X_REG_FIFO_RX_CURRENT_ADDR
  | SX127X_REG_IRQ_FLAGS
  | SX127X_REG_RX_NB_BYTES
  | SX127X_REG_PKT_SNR_VALUE
  | SX127X_REG_PKT_RSSI_VALUE
  | SX127X_REG_RSSI_VALUE
  | SX127X_REG_MODEM_CONFIG1
  | SX127X_REG_MODEM_CONFIG2
  | SX127X_REG_PREAMBLE_MSB
  | SX127X_REG_PAYLOAD_LENGTH
  | SX127X_REG_MAX_PAYLOAD_LENGTH
  | SX127X_REG_MODEM_CONFIG3
  | SX127X_REG_VERSION
  | Following reg

text \<open>
  \<^descr>[\<open>regs\<close>] the register file.
  \<^descr>[\<open>fifo\<close>] the 256-byte data buffer behind \<^verbatim>\<open>SX127X_REG_FIFO\<close>.
  \<^descr>[\<open>pending\<close>] what the radio will do while the driver sleeps: the \<open>n\<close>-th entry
    is the set of interrupt conditions raised during the \<open>n\<close>-th \<^verbatim>\<open>msleep(20)\<close>.
  \<^descr>[\<open>slept\<close>] how many times the driver has slept for 20 ms.
  \<^descr>[\<open>wlog\<close>] the register writes seen on the bus, the latest first.
\<close>

record chip =
  regs :: "reg \<Rightarrow> u8"
  fifo :: "u8 \<Rightarrow> u8"
  pending :: "u8 list"
  slept :: nat
  wlog :: "(reg \<times> u8) list"

text \<open>
  What a bus access does to the chip is not part of the driver. It is taken from the
  data model of the specification: each bit of the interrupt-flags register is
  write-1-to-clear (a 1 written to a bit clears that condition and leaves the other
  bits as they are), and the FIFO is a 256-byte buffer addressed through one pointer
  register, which moves on with every byte. Every other register is plain storage.
\<close>

definition hw_write :: "chip \<Rightarrow> reg \<Rightarrow> u8 \<Rightarrow> chip" where
  "hw_write c adr v =
     (if adr = SX127X_REG_IRQ_FLAGS
        then c\<lparr>regs := (regs c)(adr := regs c adr AND NOT v)\<rparr>
      else if adr = SX127X_REG_FIFO
        then c\<lparr>regs := (regs c)(SX127X_REG_FIFO_ADDR_PTR := regs c SX127X_REG_FIFO_ADDR_PTR + 1),
               fifo := (fifo c)(regs c SX127X_REG_FIFO_ADDR_PTR := v)\<rparr>
      else c\<lparr>regs := (regs c)(adr := v)\<rparr>)"

definition hw_read :: "chip \<Rightarrow> reg \<Rightarrow> u8 \<times> chip" where
  "hw_read c adr =
     (if adr = SX127X_REG_FIFO
        then (fifo c (regs c SX127X_REG_FIFO_ADDR_PTR),
              c\<lparr>regs := (regs c)(SX127X_REG_FIFO_ADDR_PTR := regs c SX127X_REG_FIFO_ADDR_PTR + 1)\<rparr>)
      else (regs c adr, c))"

text \<open>
  \<^verbatim>\<open>msleep(20)\<close> lets 20 ms pass. The driver observes the radio by polling only, so
  all the radio does in that time is to raise the next set of pending interrupt
  conditions; with none pending, nothing changes but the time.
\<close>

definition msleep20 :: "chip \<Rightarrow> chip" where
  "msleep20 c =
     (case pending c of
        [] \<Rightarrow> c\<lparr>slept := Suc (slept c)\<rparr>
      | e # es \<Rightarrow>
          c\<lparr>regs := (regs c)(SX127X_REG_IRQ_FLAGS := regs c SX127X_REG_IRQ_FLAGS OR e),
            pending := es, slept := Suc (slept c)\<rparr>)"

subsection \<open>SPI functions\<close>

text \<open>
  \<^verbatim>\<open>sx127X_read_reg\<close> and \<^verbatim>\<open>sx127X_write_reg\<close> with a bound SPI device whose transfers
  complete: the bytes of the burst in address order. The count the C functions return
  is then the message length minus the address byte, which is \<open>len\<close>, so it is not
  returned here. A burst on the FIFO stays on the FIFO address. A transfer that fails
  (no device, a bus error) is not modelled; the driver itself ignores the status of
  every register access but the two FIFO transfers.
\<close>

fun sx127X_read_reg :: "chip \<Rightarrow> reg \<Rightarrow> nat \<Rightarrow> u8 list \<times> chip" where
  "sx127X_read_reg c adr 0 = ([], c)"
| "sx127X_read_reg c adr (Suc len) =
     (let (b, c1) = hw_read c adr;
          (bs, c2) = sx127X_read_reg c1 (if adr = SX127X_REG_FIFO then adr else Following adr) len
      in (b # bs, c2))"

fun sx127X_write_reg :: "chip \<Rightarrow> reg \<Rightarrow> u8 list \<Rightarrow> chip" where
  "sx127X_write_reg c adr [] = c"
| "sx127X_write_reg c adr (b # bs) =
     sx127X_write_reg ((hw_write c adr b)\<lparr>wlog := (adr, b) # wlog c\<rparr>)
       (if adr = SX127X_REG_FIFO then adr else Following adr) bs"

text \<open>The one-byte accesses of a register other than the FIFO, as the driver uses them.\<close>

definition read1 :: "chip \<Rightarrow> reg \<Rightarrow> u8" where
  "read1 c adr = hd (fst (sx127X_read_reg c adr 1))"

definition write1 :: "chip \<Rightarrow> reg \<Rightarrow> u8 \<Rightarrow> chip" where
  "write1 c adr v = sx127X_write_reg c adr [v]"

subsection \<open>Operating mode\<close>

definition sx127X_getMode :: "chip \<Rightarrow> u8" where
  "sx127X_getMode c = read1 c SX127X_REG_OP_MODE"

definition sx127X_setState :: "chip \<Rightarrow> u8 \<Rightarrow> chip" where
  "sx127X_setState c st =
     (let op_mode = sx127X_getMode c;
          op_mode = (op_mode AND 0xF8) OR (st AND 0x07)
      in write1 c SX127X_REG_OP_MODE op_mode)"

definition sx127X_getState :: "chip \<Rightarrow> u8" where
  "sx127X_getState c = sx127X_getMode c AND 0x07"

subsection \<open>IRQ flags\<close>

definition sx127X_getLoRaAllFlag :: "chip \<Rightarrow> u8" where
  "sx127X_getLoRaAllFlag c = read1 c SX127X_REG_IRQ_FLAGS"

definition sx127X_getLoRaFlag :: "chip \<Rightarrow> u8 \<Rightarrow> u8" where
  "sx127X_getLoRaFlag c f = sx127X_getLoRaAllFlag c AND f"

definition sx127X_clearLoRaFlag :: "chip \<Rightarrow> u8 \<Rightarrow> chip" where
  "sx127X_clearLoRaFlag c f =
     (let flag = sx127X_getLoRaAllFlag c;
          flag = flag OR f
      in write1 c SX127X_REG_IRQ_FLAGS flag)"

definition sx127X_clearLoRaAllFlag :: "chip \<Rightarrow> chip" where
  "sx127X_clearLoRaAllFlag c = sx127X_clearLoRaFlag c 0xFF"

subsection \<open>Carrier frequency\<close>

text \<open>
  \<^verbatim>\<open>sx127X_setLoRaFreq\<close>. The crystal frequency \<open>f_xosc\<close> is \<^verbatim>\<open>F_XOSC\<close> or the
  \<^verbatim>\<open>clock-frequency\<close> property of the device tree, so it is an argument.
  \<^verbatim>\<open>do_div\<close> divides the 64-bit value in place by a 32-bit divisor and leaves the
  quotient; a divisor of 0 traps, which is the result \<open>None\<close>. The loop fills
  \<^verbatim>\<open>buf[2]\<close>, \<^verbatim>\<open>buf[1]\<close>, \<^verbatim>\<open>buf[0]\<close>; its counter is the first argument, one above
  the index.
\<close>

definition POW_2_19 :: u64 where
  "POW_2_19 = 0x80000"

definition F_XOSC :: u32 where
  "F_XOSC = 32000000"

fun frf_loop :: "nat \<Rightarrow> u32 \<Rightarrow> u8 list \<Rightarrow> u8 list" where
  "frf_loop 0 frt buf = buf"
| "frf_loop (Suc i) frt buf = frf_loop i (drop_bit 8 frt) (buf[i := ucast (frt mod 256)])"

definition frf_of :: "u32 \<Rightarrow> u32 \<Rightarrow> u32 option" where
  "frf_of fr f_xosc =
     (let frt64 = (ucast fr :: u64) * POW_2_19
      in if f_xosc = 0 then None else Some (ucast (frt64 div ucast f_xosc)))"

definition sx127X_setLoRaFreq :: "chip \<Rightarrow> u32 \<Rightarrow> u32 \<Rightarrow> chip option" where
  "sx127X_setLoRaFreq c fr f_xosc =
     (case frf_of fr f_xosc of
        None \<Rightarrow> None
      | Some frt \<Rightarrow> Some (sx127X_write_reg c SX127X_REG_FRF_MSB (frf_loop 3 frt [0, 0, 0])))"

text \<open>
  \<^verbatim>\<open>sx127X_getLoRaFreq\<close>: the loop over the three bytes read builds the register value
  in a \<^verbatim>\<open>uint64_t\<close>; the product with the crystal frequency is divided by \<open>2^19\<close> and
  cut to 32 bits.
\<close>

definition frf_read :: "chip \<Rightarrow> u64" where
  "frf_read c =
     foldl (\<lambda>frt b. frt * 256 + ucast b) 0 (fst (sx127X_read_reg c SX127X_REG_FRF_MSB 3))"

definition sx127X_getLoRaFreq :: "chip \<Rightarrow> u32 \<Rightarrow> u32" where
  "sx127X_getLoRaFreq c f_xosc = ucast (frf_read c * ucast f_xosc div POW_2_19)"

text \<open>
  The register value in the words of the specification, for comparison with the code:
  \<open>Hz \<times> 2^19 / crystal_Hz\<close> rounded to the nearest integer.
\<close>

definition spec_frf_nearest :: "nat \<Rightarrow> nat \<Rightarrow> nat" where
  "spec_frf_nearest fr xosc = (2 * (fr * 2 ^ 19) + xosc) div (2 * xosc)"

subsection \<open>Output power\<close>

text \<open>
  \<^verbatim>\<open>sx127X_setLoRaPower\<close> and \<^verbatim>\<open>sx127X_getLoRaPower\<close>. An \<^verbatim>\<open>int32_t\<close> is a 32-bit word
  read in two's complement; \<^verbatim>\<open>outputPower\<close> is a \<^verbatim>\<open>uint8_t\<close> in the setter, so the
  assignment keeps the low eight bits, and so does the assignment to \<^verbatim>\<open>pac\<close>.
  The getter computes with small non-negative bytes, so its \<^verbatim>\<open>int32_t\<close> values are
  integers; \<open>sdiv\<close> is C's division, which truncates towards zero.
\<close>

definition sx127X_setLoRaPower :: "chip \<Rightarrow> u32 \<Rightarrow> chip" where
  "sx127X_setLoRaPower c pout =
     (let (boost, pmax, outputPower) =
            (if 15 <s pout then (1 :: u8, 7 :: u32, ucast (pout - 2) :: u8)
             else if pout <s 0 then (0, 2, ucast (3 + pout))
             else (0, 7, ucast pout));
          pac = (ucast (push_bit 7 (ucast boost :: u32) OR push_bit 4 pmax OR ucast outputPower) :: u8)
      in write1 c SX127X_REG_PA_CONFIG pac)"

definition sx127X_getLoRaPower :: "chip \<Rightarrow> int" where
  "sx127X_getLoRaPower c =
     (let pac = read1 c SX127X_REG_PA_CONFIG;
          boost = drop_bit 7 (pac AND 0x80);
          outputPower = uint (pac AND 0x0F)
      in if boost \<noteq> 0 then 2 + outputPower
         else (let pmax = 108 + 6 * uint (drop_bit 4 (pac AND 0x70))
               in (pmax - (150 - outputPower * 10)) sdiv 10))"

text \<open>
  \<^verbatim>\<open>loraspi_setpower\<close>, the entry point of the ioctl: the value from user space is
  clamped to \<^verbatim>\<open>LORA_MIN_POWER\<close> .. \<^verbatim>\<open>LORA_MAX_POWER\<close> before it reaches the chip.
\<close>

definition LORA_MAX_POWER :: u32 where
  "LORA_MAX_POWER = 17"

definition LORA_MIN_POWER :: u32 where
  "LORA_MIN_POWER = - 2"

definition loraspi_setpower :: "chip \<Rightarrow> u32 \<Rightarrow> chip" where
  "loraspi_setpower c dbm =
     (let dbm = (if LORA_MAX_POWER <s dbm then LORA_MAX_POWER
                 else if dbm <s LORA_MIN_POWER then LORA_MIN_POWER
                 else dbm)
      in sx127X_setLoRaPower c dbm)"

subsection \<open>LNA gain\<close>

text \<open>
  \<^verbatim>\<open>sx127X_getLoRaLNA\<close>. \<^verbatim>\<open>g\<close> and \<^verbatim>\<open>i\<close> are \<^verbatim>\<open>int8_t\<close>: the index \<open>i\<close> is
  the gain field minus one, as a signed number. The table has six entries; a read
  at any other index is outside the array, where C defines no value: \<open>None\<close>.
\<close>

definition lna_gain :: "int list" where
  "lna_gain = [0, -6, -12, -24, -26, -48]"

definition lna_index :: "u8 \<Rightarrow> int" where
  "lna_index lnacf = (let g = (drop_bit 5 lnacf :: u8); i = (g - 1 :: u8) in sint i)"

definition sx127X_getLoRaLNA :: "chip \<Rightarrow> int option" where
  "sx127X_getLoRaLNA c =
     (let lnacf = read1 c SX127X_REG_LNA;
          i = lna_index lnacf
      in if 0 \<le> i \<and> i < int (length lna_gain) then Some (lna_gain ! nat i) else None)"

subsection \<open>Spreading factor\<close>

text \<open>
  \<^verbatim>\<open>sx127X_setLoRaSPRFactor\<close> and \<^verbatim>\<open>sx127X_getLoRaSPRFactor\<close>. The loop counter \<^verbatim>\<open>sf\<close>
  runs from 6 to at most 12 and is a natural number here.
\<close>

function sprf_loop :: "nat \<Rightarrow> u32 \<Rightarrow> nat" where
  "sprf_loop sf c_s =
     (if sf < 12 then (if c_s = push_bit sf (1 :: u32) then sf else sprf_loop (sf + 1) c_s)
      else sf)"
  by pat_completeness auto
termination
  by (relation "measure (\<lambda>(sf, c_s). 12 - sf)") auto

declare sprf_loop.simps [simp del]

definition sx127X_setLoRaSPRFactor :: "chip \<Rightarrow> u32 \<Rightarrow> chip" where
  "sx127X_setLoRaSPRFactor c c_s =
     (let sf = (of_nat (sprf_loop 6 c_s) :: u8);
          mcf2 = read1 c SX127X_REG_MODEM_CONFIG2;
          mcf2 = (mcf2 AND 0x0F) OR push_bit 4 sf
      in write1 c SX127X_REG_MODEM_CONFIG2 mcf2)"

definition sx127X_getLoRaSPRFactor :: "chip \<Rightarrow> u32" where
  "sx127X_getLoRaSPRFactor c =
     (let sf = read1 c SX127X_REG_MODEM_CONFIG2;
          sf = drop_bit 4 sf
      in push_bit (unat sf) 1)"

subsection \<open>Bandwidth\<close>

text \<open>\<^verbatim>\<open>sx127X_setLoRaBW\<close>: the scan stops at the first entry that is large enough, or at 9.\<close>

definition hz :: "u32 list" where
  "hz = [7800, 10400, 15600, 20800, 31250, 41700, 62500, 125000, 250000, 500000]"

function bw_loop :: "nat \<Rightarrow> u32 \<Rightarrow> nat" where
  "bw_loop i bw =
     (if i < 9 then (if hz ! i \<ge> bw then i else bw_loop (i + 1) bw) else i)"
  by pat_completeness auto
termination
  by (relation "measure (\<lambda>(i, bw). 9 - i)") auto

declare bw_loop.simps [simp del]

definition sx127X_setLoRaBW :: "chip \<Rightarrow> u32 \<Rightarrow> chip" where
  "sx127X_setLoRaBW c bw =
     (let i = (of_nat (bw_loop 0 bw) :: u8);
          mcf1 = read1 c SX127X_REG_MODEM_CONFIG1;
          mcf1 = (mcf1 AND 0x0F) OR push_bit 4 i
      in write1 c SX127X_REG_MODEM_CONFIG1 mcf1)"

subsection \<open>Coding rate and header mode\<close>

text \<open>
  \<^verbatim>\<open>sx127X_setLoRaCR\<close>. The right-hand side is computed in \<^verbatim>\<open>int\<close> (32 bits, two's
  complement, so that \<^verbatim>\<open>(cr & 0xF) - 4\<close> may be negative) and the assignment to the
  \<^verbatim>\<open>uint8_t\<close> keeps the low eight bits.
\<close>

definition sx127X_setLoRaCR :: "chip \<Rightarrow> u8 \<Rightarrow> chip" where
  "sx127X_setLoRaCR c cr =
     (let mcf1 = read1 c SX127X_REG_MODEM_CONFIG1;
          mcf1 = (ucast ((ucast (mcf1 AND 0x0E) :: u32) OR push_bit 1 ((ucast (cr AND 0xF) :: u32) - 4)) :: u8)
      in write1 c SX127X_REG_MODEM_CONFIG1 mcf1)"

definition sx127X_getLoRaCR :: "chip \<Rightarrow> u8" where
  "sx127X_getLoRaCR c =
     (let mcf1 = read1 c SX127X_REG_MODEM_CONFIG1
      in 0x40 + drop_bit 1 (mcf1 AND 0x0E) + 4)"

definition sx127X_setLoRaImplicit :: "chip \<Rightarrow> u8 \<Rightarrow> chip" where
  "sx127X_setLoRaImplicit c yesno =
     (let mcf1 = read1 c SX127X_REG_MODEM_CONFIG1;
          mcf1 = (if yesno \<noteq> 0 then mcf1 OR 0x01 else mcf1 AND 0xFE)
      in write1 c SX127X_REG_MODEM_CONFIG1 mcf1)"

subsection \<open>Preamble length\<close>

definition sx127X_getLoRaPreambleLen :: "chip \<Rightarrow> u32" where
  "sx127X_getLoRaPreambleLen c =
     (let pl = fst (sx127X_read_reg c SX127X_REG_PREAMBLE_MSB 2)
      in ucast (pl ! 0) * 256 + ucast (pl ! 1))"

subsection \<open>Payload transfer through the FIFO\<close>

text \<open>
  \<^verbatim>\<open>sx127X_readLoRaData\<close> and \<^verbatim>\<open>sx127X_sendLoRaData\<close> return the count of the FIFO
  transfer; the buffer handed to the sender holds at least \<open>len\<close> bytes.
\<close>

definition sx127X_readLoRaData :: "chip \<Rightarrow> nat \<Rightarrow> nat \<times> u8 list \<times> chip" where
  "sx127X_readLoRaData c len =
     (let start_adr = read1 c SX127X_REG_FIFO_RX_CURRENT_ADDR;
          c1 = write1 c SX127X_REG_FIFO_ADDR_PTR start_adr;
          blen = read1 c1 SX127X_REG_RX_NB_BYTES;
          len = (if unat blen < len then unat blen else len);
          (buf, c2) = sx127X_read_reg c1 SX127X_REG_FIFO len
      in (len, buf, c2))"

definition SX127X_MAX_FIFO_LENGTH :: nat where
  "SX127X_MAX_FIFO_LENGTH = 0xFF"

definition sx127X_sendLoRaData :: "chip \<Rightarrow> u8 list \<Rightarrow> nat \<Rightarrow> nat \<times> chip" where
  "sx127X_sendLoRaData c buf len =
     (let base_adr = read1 c SX127X_REG_FIFO_TX_BASE_ADDR;
          c1 = write1 c SX127X_REG_FIFO_ADDR_PTR base_adr;
          blen = (if len < SX127X_MAX_FIFO_LENGTH then len else SX127X_MAX_FIFO_LENGTH);
          c2 = sx127X_write_reg c1 SX127X_REG_FIFO (take blen buf);
          cnt = blen;
          c3 = write1 c2 SX127X_REG_PAYLOAD_LENGTH (of_nat cnt)
      in (cnt, c3))"

section \<open>The packet data path\<close>

text \<open>
  The constants of \<^verbatim>\<open>sx1278.h\<close> that the data path uses as values: the codes of the
  operating states and the masks of the interrupt flags. The header is not among
  the sources, so the data path takes them as an argument.
\<close>

record sx1278_h =
  SX127X_SLEEP_MODE :: u8
  SX127X_STANDBY_MODE :: u8
  SX127X_TX_MODE :: u8
  SX127X_RXCONTINUOUS_MODE :: u8
  SX127X_FLAG_RXTIMEOUT :: u8
  SX127X_FLAG_RXDONE :: u8
  SX127X_FLAG_PAYLOADCRCERROR :: u8
  SX127X_FLAG_TXDONE :: u8

text \<open>The fields of \<^verbatim>\<open>struct lora_struct\<close> that the data path touches.\<close>

record lora_struct =
  rx_buf :: "u8 list"
  tx_buf :: "u8 list"
  tx_buflen :: nat
  bufmaxlen :: nat

datatype errno = ENODATA | EBADMSG

subsection \<open>Receive\<close>

text \<open>
  \<^verbatim>\<open>loraspi_read\<close> in three steps: the preparation of the chip, the polling loop and the
  classification. \<^verbatim>\<open>flag\<close> has no value before the loop in C; the loop body runs at
  least once and assigns it. The result is \<open>Inl e\<close> for \<^verbatim>\<open>-e\<close> and \<open>Inr n\<close> for a
  count; the second component is what \<^verbatim>\<open>copy_to_user\<close> is given.
\<close>

definition rx_prepare :: "sx1278_h \<Rightarrow> chip \<Rightarrow> chip" where
  "rx_prepare h c =
     (let st = sx127X_getState c
      in if st \<noteq> SX127X_RXCONTINUOUS_MODE h
         then (let c1 = sx127X_setState c (SX127X_STANDBY_MODE h);
                   c2 = write1 c1 SX127X_REG_FIFO_RX_BASE_ADDR 0x00;
                   c3 = sx127X_clearLoRaAllFlag c2
               in sx127X_setState c3 (SX127X_RXCONTINUOUS_MODE h))
         else c)"

definition rx_mask :: "sx1278_h \<Rightarrow> u8" where
  "rx_mask h = SX127X_FLAG_RXTIMEOUT h OR SX127X_FLAG_RXDONE h OR SX127X_FLAG_PAYLOADCRCERROR h"

function rx_wait :: "sx1278_h \<Rightarrow> nat \<Rightarrow> u8 \<Rightarrow> chip \<Rightarrow> u8 \<times> chip" where
  "rx_wait h timeout flag c =
     (if timeout < 250
      then (if sx127X_getLoRaFlag c (rx_mask h) = 0
            then rx_wait h (timeout + 1) (sx127X_getLoRaFlag c (rx_mask h)) (msleep20 c)
            else (sx127X_getLoRaFlag c (rx_mask h), c))
      else (flag, c))"
  by pat_completeness auto
termination
  by (relation "measure (\<lambda>(h, timeout, flag, c). 250 - timeout)") auto

declare rx_wait.simps [simp del]

definition loraspi_read ::
  "sx1278_h \<Rightarrow> lora_struct \<Rightarrow> chip \<Rightarrow> nat \<Rightarrow> (errno + nat) \<times> u8 list \<times> lora_struct \<times> chip" where
  "loraspi_read h lrdata c0 sz =
     (let c1 = rx_prepare h c0;
          (flag, c2) = rx_wait h 0 0 c1;
          r = (if flag = 0 \<or> flag AND SX127X_FLAG_RXTIMEOUT h \<noteq> 0 then Inl ENODATA else Inr 0);
          r = (if sx127X_getLoRaFlag c2 (SX127X_FLAG_PAYLOADCRCERROR h) \<noteq> 0 then Inl EBADMSG else r);
          (r, user, lrdata, c3) =
            (if r = Inr 0
             then (let lrdata = lrdata\<lparr>rx_buf := replicate (bufmaxlen lrdata) 0\<rparr>;
                       sz = (if bufmaxlen lrdata < sz then bufmaxlen lrdata else sz);
                       (n, data, c3) = sx127X_readLoRaData c2 sz;
                       lrdata = lrdata\<lparr>rx_buf := data @ drop n (rx_buf lrdata)\<rparr>
                   in (Inr n, (if n > 0 then take n (rx_buf lrdata) else []), lrdata, c3))
             else (r, [], lrdata, c2));
          c4 = sx127X_clearLoRaAllFlag c3
      in (r, user, lrdata, c4))"

subsection \<open>Transmit\<close>

text \<open>
  \<^verbatim>\<open>loraspi_write\<close>. \<open>sz\<close> is the \<^verbatim>\<open>size\<close> of the source and \<open>status\<close> is what
  \<^verbatim>\<open>copy_from_user\<close> returns, the number of bytes it could not copy; the user buffer
  \<open>buf\<close> holds \<open>sz\<close> bytes and \<open>sz\<close> is at most \<^verbatim>\<open>bufmaxlen\<close>, the size of
  \<^verbatim>\<open>tx_buf\<close>. The function leaves early, with 0 and without a bus access, when
  nothing was copied. The \<^verbatim>\<open>uint32_t\<close> \<^verbatim>\<open>timeout\<close> is at most 255 + 65535 + 3
  and is a natural number here; it is the first argument of the loop.
\<close>

fun tx_wait :: "sx1278_h \<Rightarrow> nat \<Rightarrow> nat \<Rightarrow> chip \<Rightarrow> nat \<times> chip" where
  "tx_wait h 0 n c = (n, c)"
| "tx_wait h (Suc t) n c =
     (if sx127X_getLoRaFlag c (SX127X_FLAG_TXDONE h) \<noteq> 0 then (n, c)
      else if Suc t = 1 then tx_wait h t 0 c
      else tx_wait h t n (msleep20 c))"

definition tx_budget :: "nat \<Rightarrow> chip \<Rightarrow> nat" where
  "tx_budget n c = (n + unat (sx127X_getLoRaPreambleLen c) + 1) + 2"

definition loraspi_write ::
  "sx1278_h \<Rightarrow> lora_struct \<Rightarrow> chip \<Rightarrow> u8 list \<Rightarrow> nat \<Rightarrow> nat \<Rightarrow> nat \<times> lora_struct \<times> chip" where
  "loraspi_write h lrdata c0 buf sz status =
     (let lrdata = lrdata\<lparr>tx_buf := replicate (bufmaxlen lrdata) 0\<rparr>;
          lrdata = lrdata\<lparr>tx_buf := take (sz - status) buf @ drop (sz - status) (tx_buf lrdata)\<rparr>
      in if status \<ge> sz then (0, lrdata, c0)
         else (let lrdata = lrdata\<lparr>tx_buflen := sz - status\<rparr>;
                   c1 = sx127X_setState c0 (SX127X_STANDBY_MODE h);
                   c2 = write1 c1 SX127X_REG_FIFO_TX_BASE_ADDR 0x80;
                   (n, c3) = sx127X_sendLoRaData c2 (tx_buf lrdata) (tx_buflen lrdata);
                   c4 = sx127X_clearLoRaFlag c3 (SX127X_FLAG_TXDONE h);
                   (n, c5) = (if n > 0
                              then (let c5 = sx127X_setState c4 (SX127X_TX_MODE h)
                                    in tx_wait h (tx_budget n c5) n c5)
                              else (n, c4));
                   c6 = sx127X_setState c5 (SX127X_STANDBY_MODE h);
                   c7 = sx127X_setState c6 (SX127X_RXCONTINUOUS_MODE h);
                   lrdata = lrdata\<lparr>tx_buflen := 0\<rparr>
               in (n, lrdata, c7)))"

text \<open>
  The chip at the moment the wait loop of \<^verbatim>\<open>loraspi_write\<close> starts: the steps of the
  function up to the switch to the TX state, for the statements below.
\<close>

definition tx_start :: "sx1278_h \<Rightarrow> chip \<Rightarrow> u8 list \<Rightarrow> nat \<Rightarrow> chip" where
  "tx_start h c0 buf len =
     (let c1 = sx127X_setState c0 (SX127X_STANDBY_MODE h);
          c2 = write1 c1 SX127X_REG_FIFO_TX_BASE_ADDR 0x80;
          c3 = snd (sx127X_sendLoRaData c2 buf len);
          c4 = sx127X_clearLoRaFlag c3 (SX127X_FLAG_TXDONE h)
      in sx127X_setState c4 (SX127X_TX_MODE h))"

section \<open>Worked examples: a concrete chip\<close>

text \<open>
  A chip with the given register contents and the given interrupt conditions to come,
  an empty FIFO and a silent bus. \<open>semtech_h\<close> gives the header constants the values
  of the Semtech SX1276/77/78/79 register map; \<open>reset_regs\<close> holds the reset values
  of the registers the examples look at (LoRa mode, standby).
\<close>

definition chip_of :: "(reg \<Rightarrow> u8) \<Rightarrow> u8 list \<Rightarrow> chip" where
  "chip_of r es = \<lparr>regs = r, fifo = (\<lambda>_. 0), pending = es, slept = 0, wlog = []\<rparr>"

definition semtech_h :: sx1278_h where
  "semtech_h =
     \<lparr>SX127X_SLEEP_MODE = 0x00, SX127X_STANDBY_MODE = 0x01, SX127X_TX_MODE = 0x03,
      SX127X_RXCONTINUOUS_MODE = 0x05, SX127X_FLAG_RXTIMEOUT = 0x80,
      SX127X_FLAG_RXDONE = 0x40, SX127X_FLAG_PAYLOADCRCERROR = 0x20,
      SX127X_FLAG_TXDONE = 0x08\<rparr>"

definition reset_regs :: "reg \<Rightarrow> u8" where
  "reset_regs =
     (\<lambda>_. 0)(SX127X_REG_OP_MODE := 0x89, SX127X_REG_PA_CONFIG := 0x4F,
             SX127X_REG_LNA := 0x20, SX127X_REG_MODEM_CONFIG1 := 0x72,
             SX127X_REG_MODEM_CONFIG2 := 0x70, SX127X_REG_FIFO_TX_BASE_ADDR := 0x80,
             Following SX127X_REG_PREAMBLE_MSB := 0x08)"

definition lrdata0 :: lora_struct where
  "lrdata0 = \<lparr>rx_buf = [], tx_buf = [], tx_buflen = 0, bufmaxlen = 16\<rparr>"

section \<open>Register accesses\<close>

lemma read1_plain [simp]:
  "adr \<noteq> SX127X_REG_FIFO \<Longrightarrow> read1 c adr = regs c adr"
  by (simp add: read1_def hw_read_def)

lemma regs_write1_plain:
  "adr \<noteq> SX127X_REG_FIFO \<Longrightarrow> adr \<noteq> SX127X_REG_IRQ_FLAGS \<Longrightarrow>
     regs (write1 c adr v) = (regs c)(adr := v)"
  by (simp add: write1_def hw_write_def)

lemma regs_write1_irq:
  "regs (write1 c SX127X_REG_IRQ_FLAGS v) =
     (regs c)(SX127X_REG_IRQ_FLAGS := regs c SX127X_REG_IRQ_FLAGS AND NOT v)"
  by (simp add: write1_def hw_write_def)

lemma wlog_write1 [simp]: "wlog (write1 c adr v) = (adr, v) # wlog c"
  by (simp add: write1_def)

lemma pending_write1 [simp]: "pending (write1 c adr v) = pending c"
  by (simp add: write1_def hw_write_def)

lemma slept_write1 [simp]: "slept (write1 c adr v) = slept c"
  by (simp add: write1_def hw_write_def)

lemma fifo_write1 [simp]: "adr \<noteq> SX127X_REG_FIFO \<Longrightarrow> fifo (write1 c adr v) = fifo c"
  by (simp add: write1_def hw_write_def)

lemma u8_bound: "unat (b :: u8) < 256"
  using unsigned_less [of b, where 'a = nat] by simp

lemma u32_bound: "unat (w :: u32) < 4294967296"
  using unsigned_less [of w, where 'a = nat] by simp

lemma mask_07: "(0x07 :: u8) = mask 3" by (simp add: mask_eq_exp_minus_1)
lemma mask_F8: "(0xF8 :: u8) = NOT (mask 3)" by (simp add: mask_eq_exp_minus_1)
lemma mask_0F: "(0x0F :: u8) = mask 4" by (simp add: mask_eq_exp_minus_1)

lemma mode_field_bit:
  "bit ((old AND 0xF8) OR (st AND 0x07) :: u8) n = (if n < 3 then bit st n else bit old n)"
  unfolding mask_07 mask_F8 by (auto simp add: bit_simps dest: bit_imp_le_length)

lemma mode_field_upper:
  "drop_bit 3 ((old AND 0xF8) OR (st AND 0x07) :: u8) = drop_bit 3 old"
  unfolding mask_07 mask_F8 by (rule bit_word_eqI) (auto simp add: bit_simps dest: bit_imp_le_length)

lemma mode_field_lower:
  "((old AND 0xF8) OR (st AND 0x07) :: u8) AND 0x07 = st AND 0x07"
  unfolding mask_07 mask_F8 by (rule bit_word_eqI) (auto simp add: bit_simps)

lemma regs_setState:
  "regs (sx127X_setState c st) =
     (regs c)(SX127X_REG_OP_MODE := (regs c SX127X_REG_OP_MODE AND 0xF8) OR (st AND 0x07))"
  by (simp add: sx127X_setState_def sx127X_getMode_def regs_write1_plain)

lemma wlog_setState:
  "wlog (sx127X_setState c st) =
     (SX127X_REG_OP_MODE, (regs c SX127X_REG_OP_MODE AND 0xF8) OR (st AND 0x07)) # wlog c"
  by (simp add: sx127X_setState_def sx127X_getMode_def)

section \<open>Operating mode: the state field\<close>

text \<open>
  Claim C10. For every target state \<open>st\<close> and every earlier value of the op-mode
  register, \<^verbatim>\<open>sx127X_setState\<close> writes \<open>(old AND 0xF8) OR (st AND 0x07)\<close> to the
  op-mode register and to nothing else: the upper five bits keep their values, among
  them the LoRa-mode bit 7 and the frequency-port bit 3, and the state read back is
  the low three bits of \<open>st\<close>.
\<close>

theorem setState_writes_mode_field:
  "regs (sx127X_setState c st) =
     (regs c)(SX127X_REG_OP_MODE := (sx127X_getMode c AND 0xF8) OR (st AND 0x07))
   \<and> wlog (sx127X_setState c st) =
       (SX127X_REG_OP_MODE, (sx127X_getMode c AND 0xF8) OR (st AND 0x07)) # wlog c
   \<and> drop_bit 3 (sx127X_getMode (sx127X_setState c st)) = drop_bit 3 (sx127X_getMode c)
   \<and> bit (sx127X_getMode (sx127X_setState c st)) 7 = bit (sx127X_getMode c) 7
   \<and> bit (sx127X_getMode (sx127X_setState c st)) 3 = bit (sx127X_getMode c) 3
   \<and> sx127X_getState (sx127X_setState c st) = st AND 0x07"
proof -
  let ?old = "sx127X_getMode c"
  let ?new = "(?old AND 0xF8) OR (st AND 0x07)"
  have old: "?old = regs c SX127X_REG_OP_MODE"
    by (simp add: sx127X_getMode_def)
  have r: "regs (sx127X_setState c st) = (regs c)(SX127X_REG_OP_MODE := ?new)"
    unfolding old by (rule regs_setState)
  have w: "wlog (sx127X_setState c st) = (SX127X_REG_OP_MODE, ?new) # wlog c"
    unfolding old by (rule wlog_setState)
  have m: "sx127X_getMode (sx127X_setState c st) = ?new"
    by (simp add: sx127X_getMode_def regs_setState)
  have u: "drop_bit 3 (sx127X_getMode (sx127X_setState c st)) = drop_bit 3 ?old"
    unfolding m by (rule mode_field_upper)
  have b7: "bit (sx127X_getMode (sx127X_setState c st)) 7 = bit ?old 7"
    unfolding m mode_field_bit by simp
  have b3: "bit (sx127X_getMode (sx127X_setState c st)) 3 = bit ?old 3"
    unfolding m mode_field_bit by simp
  have l: "sx127X_getState (sx127X_setState c st) = st AND 0x07"
    unfolding sx127X_getState_def m by (rule mode_field_lower)
  from r w u b7 b3 l show ?thesis by blast
qed

section \<open>IRQ flags: what a clear clears\<close>

lemma irq_after_clear:
  "regs (sx127X_clearLoRaFlag c f) = (regs c)(SX127X_REG_IRQ_FLAGS := 0)"
proof -
  have "x AND NOT (x OR f) = 0" for x :: u8
    by (rule bit_word_eqI) (auto simp add: bit_simps)
  then show ?thesis
    by (simp add: sx127X_clearLoRaFlag_def sx127X_getLoRaAllFlag_def regs_write1_irq)
qed

lemma wlog_clearLoRaFlag:
  "wlog (sx127X_clearLoRaFlag c f) =
     (SX127X_REG_IRQ_FLAGS, regs c SX127X_REG_IRQ_FLAGS OR f) # wlog c"
  by (simp add: sx127X_clearLoRaFlag_def sx127X_getLoRaAllFlag_def)

text \<open>
  Claim C1. \<^verbatim>\<open>sx127X_clearLoRaFlag\<close> reads the flags register and writes back the flags
  that are set together with the mask. On a chip that clears every flag whose bit is
  written as 1, this clears all flags, not only those of the mask: with RXDONE and
  TXDONE set (0x48), clearing TXDONE (0x08) puts 0x48 on the bus, and RXDONE, set
  before the call, is no longer set after it.
\<close>

theorem clearLoRaFlag_TXDONE_drops_RXDONE:
  "wlog (sx127X_clearLoRaFlag (chip_of (reset_regs(SX127X_REG_IRQ_FLAGS := 0x48)) []) 0x08) =
     [(SX127X_REG_IRQ_FLAGS, 0x48)]
   \<and> sx127X_getLoRaAllFlag (chip_of (reset_regs(SX127X_REG_IRQ_FLAGS := 0x48)) []) AND 0x40 = 0x40
   \<and> sx127X_getLoRaAllFlag
       (sx127X_clearLoRaFlag (chip_of (reset_regs(SX127X_REG_IRQ_FLAGS := 0x48)) []) 0x08) AND 0x40 = 0"
  by (simp add: wlog_clearLoRaFlag irq_after_clear sx127X_getLoRaAllFlag_def chip_of_def
      reset_regs_def)

section \<open>Coding rate: the register update\<close>

text \<open>
  The sibling setter of the header bit keeps the other fields of the same register.
\<close>

lemma setLoRaImplicit_keeps_fields:
  "regs (sx127X_setLoRaImplicit c yesno) SX127X_REG_MODEM_CONFIG1 AND 0xFE
     = regs c SX127X_REG_MODEM_CONFIG1 AND 0xFE"
proof -
  have m: "(0xFE :: u8) = NOT (mask 1)" "(0x01 :: u8) = mask 1"
    by (simp_all add: mask_eq_exp_minus_1)
  have "(x OR 0x01) AND 0xFE = x AND (0xFE :: u8)" for x
    unfolding m by (rule bit_word_eqI) (auto simp add: bit_simps)
  then show ?thesis
    by (simp add: sx127X_setLoRaImplicit_def regs_write1_plain Let_def)
qed

text \<open>
  Claim C2. \<^verbatim>\<open>sx127X_setLoRaCR\<close> masks the old register value with 0x0E, which keeps
  the old coding-rate field and drops every other bit. With the reset value 0x72
  (bandwidth 7, coding rate 4/5) and the request 4/8 (0x48) the register becomes 0x0A:
  the bandwidth nibble is 0, the coding-rate field is 5 and not 4, and the rate read
  back is 0x49.
\<close>

theorem setLoRaCR_clobbers_bandwidth:
  "regs (chip_of reset_regs []) SX127X_REG_MODEM_CONFIG1 = 0x72
   \<and> regs (sx127X_setLoRaCR (chip_of reset_regs []) 0x48) SX127X_REG_MODEM_CONFIG1 = 0x0A
   \<and> sx127X_getLoRaCR (sx127X_setLoRaCR (chip_of reset_regs []) 0x48) = 0x49"
  by (simp add: sx127X_setLoRaCR_def sx127X_getLoRaCR_def regs_write1_plain chip_of_def reset_regs_def)

section \<open>LNA gain: the table index\<close>

lemma field_cases:
  "drop_bit 5 (x :: u8) \<in> {0, 1, 2, 3, 4, 5, 6, 7}"
proof -
  let ?g = "drop_bit 5 x"
  have "unat ?g < 8"
    using u8_bound [of x] by (simp add: unat_drop_bit_eq drop_bit_eq_div unat_div)
  then have "unat ?g \<in> {0, 1, 2, 3, 4, 5, 6, 7}" by (simp; arith)
  then have "(word_of_nat (unat ?g) :: u8) \<in> word_of_nat ` {0, 1, 2, 3, 4, 5, 6, 7}"
    by (rule imageI)
  then show ?thesis by simp
qed

lemma getLoRaLNA_defined_iff:
  "sx127X_getLoRaLNA c = None \<longleftrightarrow> drop_bit 5 (regs c SX127X_REG_LNA) \<in> {0, 7}"
  using field_cases [of "regs c SX127X_REG_LNA"]
  by (auto simp add: sx127X_getLoRaLNA_def lna_index_def lna_gain_def Let_def)


text \<open>
  Claim C3. When the gain field of the LNA register is 0, \<^verbatim>\<open>sx127X_getLoRaLNA\<close> reads
  \<^verbatim>\<open>lna_gain[-1]\<close>: the index is outside the table and the result is not defined.
\<close>

theorem getLoRaLNA_field_0_out_of_bounds:
  "lna_index 0x00 = - 1
   \<and> sx127X_getLoRaLNA (chip_of (reset_regs(SX127X_REG_LNA := 0x00)) []) = None"
  by (simp add: sx127X_getLoRaLNA_def lna_index_def lna_gain_def chip_of_def reset_regs_def)

section \<open>Spreading factor: what is written\<close>

lemma sprf_loop_6:
  "sprf_loop 6 c_s =
     (if c_s = 64 then 6 else if c_s = 128 then 7 else if c_s = 256 then 8
      else if c_s = 512 then 9 else if c_s = 1024 then 10 else if c_s = 2048 then 11 else 12)"
  by (simp add: sprf_loop.simps)

lemma sf_field_bit:
  "bit ((old AND 0x0F) OR push_bit 4 v :: u8) n = (if n < 4 then bit old n else bit v (n - 4) \<and> n < 8)"
  unfolding mask_0F by (auto simp add: bit_simps dest: bit_imp_le_length)

lemma high_nibble:
  "drop_bit 4 ((old AND 0x0F) OR push_bit 4 v :: u8) = v AND 0x0F"
  unfolding mask_0F by (rule bit_word_eqI) (auto simp add: bit_simps dest: bit_imp_le_length)

lemma low_nibble:
  "((old AND 0x0F) OR push_bit 4 v :: u8) AND 0x0F = old AND 0x0F"
  unfolding mask_0F by (rule bit_word_eqI) (auto simp add: bit_simps)

lemma regs_setLoRaSPRFactor:
  "regs (sx127X_setLoRaSPRFactor c c_s) =
     (regs c)(SX127X_REG_MODEM_CONFIG2 :=
        (regs c SX127X_REG_MODEM_CONFIG2 AND 0x0F) OR push_bit 4 (of_nat (sprf_loop 6 c_s)))"
  by (simp add: sx127X_setLoRaSPRFactor_def regs_write1_plain)

text \<open>
  Claim C4, as stated, fails: a request that is not a power of two is not rejected.
  For 100 chips per symbol the loop ends with \<open>sf = 12\<close> and the register is written:
  0x70 becomes 0xC0, which reads back as 4096 chips per symbol.
\<close>

theorem setLoRaSPRFactor_100_writes_sf12:
  "wlog (sx127X_setLoRaSPRFactor (chip_of reset_regs []) 100) = [(SX127X_REG_MODEM_CONFIG2, 0xC0)]
   \<and> regs (chip_of reset_regs []) SX127X_REG_MODEM_CONFIG2 = 0x70
   \<and> regs (sx127X_setLoRaSPRFactor (chip_of reset_regs []) 100) SX127X_REG_MODEM_CONFIG2 = 0xC0
   \<and> sx127X_getLoRaSPRFactor (sx127X_setLoRaSPRFactor (chip_of reset_regs []) 100) = 4096"
  by (simp add: sx127X_setLoRaSPRFactor_def sx127X_getLoRaSPRFactor_def sprf_loop_6
      regs_write1_plain chip_of_def reset_regs_def)

text \<open>
  Claim C4, amended. \<^verbatim>\<open>sx127X_setLoRaSPRFactor\<close> rejects nothing and always writes the
  spreading-factor field, leaving the low nibble of the register as it was. For a
  request among 64, 128, 256, 512, 1024, 2048 it writes the \<open>sf\<close> in 6..11 with
  \<open>2 ^ sf\<close> equal to the request, and the decoder returns the request. For every other
  request it writes \<open>sf = 12\<close>, which the decoder returns as 4096.
\<close>

theorem setLoRaSPRFactor_encode_decode:
  "(c_s \<in> {64, 128, 256, 512, 1024, 2048} \<longrightarrow>
      6 \<le> sprf_loop 6 c_s \<and> sprf_loop 6 c_s \<le> 11 \<and> 2 ^ sprf_loop 6 c_s = c_s
      \<and> sx127X_getLoRaSPRFactor (sx127X_setLoRaSPRFactor c c_s) = c_s)
   \<and> (c_s \<notin> {64, 128, 256, 512, 1024, 2048} \<longrightarrow>
      sprf_loop 6 c_s = 12
      \<and> sx127X_getLoRaSPRFactor (sx127X_setLoRaSPRFactor c c_s) = 4096)
   \<and> drop_bit 4 (regs (sx127X_setLoRaSPRFactor c c_s) SX127X_REG_MODEM_CONFIG2) = of_nat (sprf_loop 6 c_s)
   \<and> regs (sx127X_setLoRaSPRFactor c c_s) SX127X_REG_MODEM_CONFIG2 AND 0x0F
       = regs c SX127X_REG_MODEM_CONFIG2 AND 0x0F
   \<and> wlog (sx127X_setLoRaSPRFactor c c_s) =
       (SX127X_REG_MODEM_CONFIG2,
        (regs c SX127X_REG_MODEM_CONFIG2 AND 0x0F) OR push_bit 4 (of_nat (sprf_loop 6 c_s))) # wlog c"
proof -
  let ?sf = "of_nat (sprf_loop 6 c_s) :: u8"
  have field: "drop_bit 4 (regs (sx127X_setLoRaSPRFactor c c_s) SX127X_REG_MODEM_CONFIG2) = ?sf AND 0x0F"
    by (simp only: regs_setLoRaSPRFactor fun_upd_same high_nibble)
  have small: "?sf AND 0x0F = ?sf"
    by (simp add: sprf_loop_6)
  have get: "sx127X_getLoRaSPRFactor (sx127X_setLoRaSPRFactor c c_s) = push_bit (unat ?sf) 1"
    using field small by (simp add: sx127X_getLoRaSPRFactor_def Let_def)
  have a: "c_s \<in> {64, 128, 256, 512, 1024, 2048} \<longrightarrow>
      6 \<le> sprf_loop 6 c_s \<and> sprf_loop 6 c_s \<le> 11 \<and> 2 ^ sprf_loop 6 c_s = c_s
      \<and> sx127X_getLoRaSPRFactor (sx127X_setLoRaSPRFactor c c_s) = c_s"
    unfolding get by (auto simp add: sprf_loop_6)
  have b: "c_s \<notin> {64, 128, 256, 512, 1024, 2048} \<longrightarrow>
      sprf_loop 6 c_s = 12 \<and> sx127X_getLoRaSPRFactor (sx127X_setLoRaSPRFactor c c_s) = 4096"
    unfolding get by (simp add: sprf_loop_6)
  have low: "regs (sx127X_setLoRaSPRFactor c c_s) SX127X_REG_MODEM_CONFIG2 AND 0x0F
       = regs c SX127X_REG_MODEM_CONFIG2 AND 0x0F"
    by (simp only: regs_setLoRaSPRFactor fun_upd_same low_nibble)
  have w: "wlog (sx127X_setLoRaSPRFactor c c_s) =
       (SX127X_REG_MODEM_CONFIG2,
        (regs c SX127X_REG_MODEM_CONFIG2 AND 0x0F) OR push_bit 4 ?sf) # wlog c"
    by (simp add: sx127X_setLoRaSPRFactor_def)
  from a b field small low w show ?thesis by simp
qed

theorem setLoRaSPRFactor_encode_decode_witness:
  "(256 :: u32) \<in> {64, 128, 256, 512, 1024, 2048}
   \<and> sx127X_getLoRaSPRFactor (sx127X_setLoRaSPRFactor (chip_of reset_regs []) 256) = 256
   \<and> (100 :: u32) \<notin> {64, 128, 256, 512, 1024, 2048}
   \<and> sx127X_getLoRaSPRFactor (sx127X_setLoRaSPRFactor (chip_of reset_regs []) 100) = 4096"
  using setLoRaSPRFactor_encode_decode [of 256 "chip_of reset_regs []"]
        setLoRaSPRFactor_encode_decode [of 100 "chip_of reset_regs []"]
  by simp


section \<open>Bandwidth: the table scan\<close>

lemma bw_loop_bounds: "i \<le> 9 \<Longrightarrow> i \<le> bw_loop i bw \<and> bw_loop i bw \<le> 9"
proof (induction i bw rule: bw_loop.induct)
  case (1 i bw)
  show ?case
  proof (cases "i < 9 \<and> \<not> bw \<le> hz ! i")
    case True
    with "1.IH" have "i + 1 \<le> bw_loop (i + 1) bw \<and> bw_loop (i + 1) bw \<le> 9" by simp
    with True show ?thesis by (subst bw_loop.simps, subst (2) bw_loop.simps) simp
  next
    case False
    with "1.prems" show ?thesis by (subst bw_loop.simps, subst (2) bw_loop.simps) auto
  qed
qed

lemma bw_loop_skips: "i \<le> j \<Longrightarrow> j < bw_loop i bw \<Longrightarrow> hz ! j < bw"
proof (induction i bw rule: bw_loop.induct)
  case (1 i bw)
  show ?case
  proof (cases "i < 9 \<and> \<not> bw \<le> hz ! i")
    case True
    then have step: "bw_loop i bw = bw_loop (i + 1) bw"
      by (subst bw_loop.simps) simp
    show ?thesis
    proof (cases "j = i")
      case True
      with \<open>i < 9 \<and> \<not> bw \<le> hz ! i\<close> show ?thesis by (simp add: not_le)
    next
      case False
      with "1.prems" have "i + 1 \<le> j" by simp
      with "1.IH" True "1.prems" step show ?thesis by simp
    qed
  next
    case False
    then have "bw_loop i bw = i" by (subst bw_loop.simps) auto
    with "1.prems" show ?thesis by simp
  qed
qed

lemma bw_loop_stops: "bw_loop i bw < 9 \<Longrightarrow> bw \<le> hz ! bw_loop i bw"
proof (induction i bw rule: bw_loop.induct)
  case (1 i bw)
  show ?case
  proof (cases "i < 9 \<and> \<not> bw \<le> hz ! i")
    case True
    then have step: "bw_loop i bw = bw_loop (i + 1) bw"
      by (subst bw_loop.simps) simp
    with "1.IH" True "1.prems" show ?thesis by simp
  next
    case False
    then have "bw_loop i bw = i" by (subst bw_loop.simps) auto
    with False "1.prems" show ?thesis by simp
  qed
qed

lemma hz_sorted: "sorted hz"
  by (simp add: hz_def)

lemma hz_length: "length hz = 10"
  by (simp add: hz_def)

lemma hz_last: "hz ! 9 = 500000"
  by (simp add: hz_def)

lemma regs_setLoRaBW:
  "regs (sx127X_setLoRaBW c bw) =
     (regs c)(SX127X_REG_MODEM_CONFIG1 :=
        (regs c SX127X_REG_MODEM_CONFIG1 AND 0x0F) OR push_bit 4 (of_nat (bw_loop 0 bw)))"
  by (simp add: sx127X_setLoRaBW_def regs_write1_plain)

lemma nibble_of_nat: "n \<le> 15 \<Longrightarrow> (of_nat n :: u8) AND 0x0F = of_nat n"
  unfolding mask_0F mask_eq_iff by (simp add: uint_nat unat_of_nat)

text \<open>
  Claim C9. \<^verbatim>\<open>sx127X_setLoRaBW\<close> writes into the bandwidth nibble the index \<open>i\<close> of the
  first table entry in scan order that is at least the request: every entry before
  \<open>i\<close> is smaller than the request. For a request of at most 500000 the entry at \<open>i\<close>
  is the smallest entry of the table that is at least the request; for a larger
  request \<open>i\<close> is 9, the entry 500000. The low nibble of the register is kept.
\<close>

theorem setLoRaBW_selects_first_sufficient:
  "bw_loop 0 bw < length hz
   \<and> drop_bit 4 (regs (sx127X_setLoRaBW c bw) SX127X_REG_MODEM_CONFIG1) = of_nat (bw_loop 0 bw)
   \<and> regs (sx127X_setLoRaBW c bw) SX127X_REG_MODEM_CONFIG1 AND 0x0F
       = regs c SX127X_REG_MODEM_CONFIG1 AND 0x0F
   \<and> (\<forall>j < bw_loop 0 bw. hz ! j < bw)
   \<and> (bw \<le> 500000 \<longrightarrow>
        bw \<le> hz ! bw_loop 0 bw \<and> (\<forall>j < length hz. bw \<le> hz ! j \<longrightarrow> hz ! bw_loop 0 bw \<le> hz ! j))
   \<and> (500000 < bw \<longrightarrow> bw_loop 0 bw = 9 \<and> hz ! bw_loop 0 bw = 500000)"
proof -
  let ?i = "bw_loop 0 bw"
  have rng: "?i \<le> 9" using bw_loop_bounds [of 0 bw] by simp
  then have len: "?i < length hz" by (simp add: hz_length)
  have field: "drop_bit 4 (regs (sx127X_setLoRaBW c bw) SX127X_REG_MODEM_CONFIG1) = of_nat ?i"
    using rng by (simp only: regs_setLoRaBW fun_upd_same high_nibble) (simp add: nibble_of_nat)
  have low: "regs (sx127X_setLoRaBW c bw) SX127X_REG_MODEM_CONFIG1 AND 0x0F
       = regs c SX127X_REG_MODEM_CONFIG1 AND 0x0F"
    by (simp only: regs_setLoRaBW fun_upd_same low_nibble)
  have first: "\<forall>j < ?i. hz ! j < bw"
    using bw_loop_skips [of 0 _ bw] by simp
  have ge: "bw \<le> hz ! ?i" if "bw \<le> 500000"
  proof (cases "?i < 9")
    case True
    then show ?thesis by (rule bw_loop_stops)
  next
    case False
    with rng have "?i = 9" by simp
    with that show ?thesis by (simp add: hz_last)
  qed
  have least: "hz ! ?i \<le> hz ! j" if "j < length hz" "bw \<le> hz ! j" for j
  proof -
    from that(2) first have "\<not> j < ?i" by (auto simp add: not_less [symmetric])
    then have "?i \<le> j" by simp
    with that(1) show ?thesis using sorted_nth_mono [OF hz_sorted, of "?i" j] by simp
  qed
  have clamp: "?i = 9" if "500000 < bw"
  proof (rule ccontr)
    assume "?i \<noteq> 9"
    with rng have lt: "?i < 9" by simp
    then have "bw \<le> hz ! ?i" by (rule bw_loop_stops)
    moreover have "hz ! ?i \<le> hz ! 9"
      using lt sorted_nth_mono [OF hz_sorted, of "?i" 9] by (simp add: hz_length)
    ultimately show False using that by (simp add: hz_last)
  qed
  from len field low first ge least clamp show ?thesis by (simp add: hz_last)
qed

theorem setLoRaBW_selects_first_sufficient_witness:
  "(100000 :: u32) \<le> 500000
   \<and> bw_loop 0 100000 = 7 \<and> hz ! bw_loop 0 100000 = 125000
   \<and> drop_bit 4 (regs (sx127X_setLoRaBW (chip_of reset_regs []) 100000) SX127X_REG_MODEM_CONFIG1) = 7
   \<and> (500000 :: u32) < 600000
   \<and> bw_loop 0 600000 = 9 \<and> hz ! bw_loop 0 600000 = 500000"
proof -
  have e: "bw_loop 0 100000 = 7"
    by (simp add: bw_loop.simps hz_def)
  show ?thesis
    using setLoRaBW_selects_first_sufficient [of 100000 "chip_of reset_regs []"]
          setLoRaBW_selects_first_sufficient [of 600000 "chip_of reset_regs []"]
    by (simp add: e hz_def)
qed


section \<open>Output power: encode and decode\<close>

text \<open>
  Claim C6, as stated, fails above 17 dBm. For 18 dBm the boost branch computes
  \<open>outputPower = 16\<close>, which does not fit the four-bit field: the byte written is 0xF0
  and it reads back as 2 dBm.
\<close>

theorem setLoRaPower_18_reads_back_2:
  "sx127X_getLoRaPower (sx127X_setLoRaPower (chip_of reset_regs []) 18) = 2
   \<and> regs (sx127X_setLoRaPower (chip_of reset_regs []) 18) SX127X_REG_PA_CONFIG = 0xF0"
  by (simp add: sx127X_setLoRaPower_def sx127X_getLoRaPower_def regs_write1_plain word_sless_alt
      chip_of_def)

lemma power_roundtrip_at:
  "k \<in> {- 2, - 1, 0, 1, 2, 3, 4, 5, 6, 7, 8, 9, 10, 11, 12, 13, 14, 15, 16, 17} \<Longrightarrow>
     sx127X_getLoRaPower (sx127X_setLoRaPower c (word_of_int k)) = k
     \<and> bit (regs (sx127X_setLoRaPower c (word_of_int k)) SX127X_REG_PA_CONFIG) 7 = (15 < k)"
  by (auto simp add: sx127X_setLoRaPower_def sx127X_getLoRaPower_def regs_write1_plain
      word_sless_alt signed_divide_int_def)

text \<open>
  What the ioctl lets through: \<^verbatim>\<open>loraspi_setpower\<close> clamps the request to -2 .. 17
  before it calls the encoder, and the value read back is the clamped request.
\<close>

lemma loraspi_setpower_clamps:
  "sx127X_getLoRaPower (loraspi_setpower c dbm) =
     (if 17 < sint dbm then 17 else if sint dbm < - 2 then - 2 else sint dbm)"
proof -
  have in_range: "sx127X_getLoRaPower (sx127X_setLoRaPower c dbm) = sint dbm"
    if "- 2 \<le> sint dbm" "sint dbm \<le> 17"
  proof -
    from that have "sint dbm \<in> {- 2, - 1, 0, 1, 2, 3, 4, 5, 6, 7, 8, 9, 10, 11, 12, 13, 14, 15, 16, 17}"
      by (simp; arith)
    then have "sx127X_getLoRaPower (sx127X_setLoRaPower c (word_of_int (sint dbm))) = sint dbm"
      using power_roundtrip_at by blast
    then show ?thesis by simp
  qed
  have hi: "sx127X_getLoRaPower (sx127X_setLoRaPower c 17) = 17"
    using power_roundtrip_at [of 17 c] by simp
  have lo: "sx127X_getLoRaPower (sx127X_setLoRaPower c (- 2)) = - 2"
    using power_roundtrip_at [of "- 2" c] by simp
  show ?thesis
    using in_range hi lo
    by (simp add: loraspi_setpower_def LORA_MAX_POWER_def LORA_MIN_POWER_def word_sless_alt not_less)
qed

text \<open>
  Claim C6, amended. For every integer dBm in [-2, 17], the range the ioctl clamps to,
  with the boost branch taken exactly when dBm is above 15, \<^verbatim>\<open>sx127X_getLoRaPower\<close>
  applied to the PA_CONFIG byte written by \<^verbatim>\<open>sx127X_setLoRaPower\<close> returns dBm, the
  negative values included.
\<close>

theorem getLoRaPower_setLoRaPower:
  assumes "- 2 \<le> sint pout" and "sint pout \<le> 17"
  shows "sx127X_getLoRaPower (sx127X_setLoRaPower c pout) = sint pout
     \<and> bit (regs (sx127X_setLoRaPower c pout) SX127X_REG_PA_CONFIG) 7 = (15 < sint pout)"
proof -
  from assms have "sint pout \<in> {- 2, - 1, 0, 1, 2, 3, 4, 5, 6, 7, 8, 9, 10, 11, 12, 13, 14, 15, 16, 17}"
    by (simp; arith)
  then have "sx127X_getLoRaPower (sx127X_setLoRaPower c (word_of_int (sint pout))) = sint pout
     \<and> bit (regs (sx127X_setLoRaPower c (word_of_int (sint pout))) SX127X_REG_PA_CONFIG) 7
         = (15 < sint pout)"
    by (rule power_roundtrip_at)
  then show ?thesis by simp
qed

theorem getLoRaPower_setLoRaPower_witness:
  "- 2 \<le> sint (- 2 :: u32) \<and> sint (- 2 :: u32) \<le> 17
   \<and> sx127X_getLoRaPower (sx127X_setLoRaPower (chip_of reset_regs []) (- 2)) = - 2
   \<and> - 2 \<le> sint (17 :: u32) \<and> sint (17 :: u32) \<le> 17
   \<and> sx127X_getLoRaPower (sx127X_setLoRaPower (chip_of reset_regs []) 17) = 17
   \<and> bit (regs (sx127X_setLoRaPower (chip_of reset_regs []) 17) SX127X_REG_PA_CONFIG) 7"
  using getLoRaPower_setLoRaPower [of "- 2" "chip_of reset_regs []"]
        getLoRaPower_setLoRaPower [of 17 "chip_of reset_regs []"]
  by simp


section \<open>Carrier frequency: the register value\<close>

lemma frf_loop_3:
  "frf_loop 3 frt [0, 0, 0] =
     [ucast (drop_bit 8 (drop_bit 8 frt) mod 256), ucast (drop_bit 8 frt mod 256), ucast (frt mod 256)]"
  by (simp add: numeral_3_eq_3)

lemma write_reg_3:
  "sx127X_write_reg c SX127X_REG_FRF_MSB [b0, b1, b2] = c'
   \<Longrightarrow> regs c' = (regs c)(SX127X_REG_FRF_MSB := b0, Following SX127X_REG_FRF_MSB := b1,
          Following (Following SX127X_REG_FRF_MSB) := b2)
     \<and> wlog c' = [(Following (Following SX127X_REG_FRF_MSB), b2), (Following SX127X_REG_FRF_MSB, b1),
                  (SX127X_REG_FRF_MSB, b0)] @ wlog c"
  by (auto simp add: hw_write_def)

lemma frf_read_regs:
  "frf_read c = (ucast (regs c SX127X_REG_FRF_MSB) * 256
                  + ucast (regs c (Following SX127X_REG_FRF_MSB))) * 256
                  + ucast (regs c (Following (Following SX127X_REG_FRF_MSB)))"
  by (simp add: frf_read_def numeral_3_eq_3 hw_read_def)

lemma byte_unat: "unat (ucast (w mod 256 :: u32) :: u8) = unat w mod 256"
  by (simp add: unsigned_ucast_eq unat_mod take_bit_eq_mod)

lemma be24_unat:
  fixes b0 b1 b2 :: u8
  shows "unat ((ucast b0 * 256 + ucast b1) * 256 + ucast b2 :: u64) = unat b0 * 65536 + unat b1 * 256 + unat b2"
  using u8_bound [of b0] u8_bound [of b1] u8_bound [of b2]
  by (simp add: unat_word_ariths unsigned_ucast_eq take_bit_eq_mod)

lemma split24:
  "(x div 65536 mod 256) * 65536 + (x div 256 mod 256) * 256 + x mod 256 = (x :: nat) mod 16777216"
proof -
  have a: "x mod (256 * 65536) = 256 * (x div 256 mod 65536) + x mod 256"
    by (rule mod_mult2_eq)
  have b: "(x div 256) mod (256 * 256) = 256 * (x div 256 div 256 mod 256) + x div 256 mod 256"
    by (rule mod_mult2_eq)
  have c: "x div 256 div 256 = x div 65536"
    by (simp add: div_mult2_eq [symmetric])
  from a b c show ?thesis by simp
qed

lemma product_fits: "unat ((ucast (fr :: u32) :: u64) * POW_2_19) = unat fr * 2 ^ 19"
  using u32_bound [of fr]
  by (simp add: unat_word_ariths unsigned_ucast_eq take_bit_eq_mod POW_2_19_def)

lemma frf_of_unat:
  assumes "f_xosc \<noteq> 0"
  shows "\<exists>frt. frf_of fr f_xosc = Some frt
           \<and> unat frt = (unat fr * 2 ^ 19 div unat f_xosc) mod 4294967296"
proof -
  have "unat (ucast ((ucast fr :: u64) * POW_2_19 div ucast f_xosc) :: u32)
          = (unat fr * 2 ^ 19 div unat f_xosc) mod 4294967296"
    using u32_bound [of f_xosc]
    by (simp add: unsigned_ucast_eq unat_div product_fits take_bit_eq_mod)
  with assms show ?thesis by (simp add: frf_of_def)
qed

lemma regs_frf_written:
  assumes "sx127X_setLoRaFreq c fr f_xosc = Some c'" and "frf_of fr f_xosc = Some frt"
  shows "unat (frf_read c') = unat frt mod 16777216"
proof -
  let ?b0 = "ucast (drop_bit 8 (drop_bit 8 frt) mod 256) :: u8"
  let ?b1 = "ucast (drop_bit 8 frt mod 256) :: u8"
  let ?b2 = "ucast (frt mod 256) :: u8"
  from assms have c': "sx127X_write_reg c SX127X_REG_FRF_MSB [?b0, ?b1, ?b2] = c'"
    by (simp add: sx127X_setLoRaFreq_def frf_loop_3)
  have r: "regs c' = (regs c)(SX127X_REG_FRF_MSB := ?b0, Following SX127X_REG_FRF_MSB := ?b1,
          Following (Following SX127X_REG_FRF_MSB) := ?b2)"
    using write_reg_3 [OF c'] by simp
  have "unat (frf_read c') = unat ?b0 * 65536 + unat ?b1 * 256 + unat ?b2"
    unfolding frf_read_regs be24_unat r by simp
  also have "\<dots> = (unat frt div 65536 mod 256) * 65536 + (unat frt div 256 mod 256) * 256 + unat frt mod 256"
    unfolding byte_unat by (simp add: unat_drop_bit_eq drop_bit_eq_div unat_div div_mult2_eq [symmetric])
  also have "\<dots> = unat frt mod 16777216"
    by (rule split24)
  finally show ?thesis .
qed

text \<open>
  Claim C5, amended. For every frequency \<open>fr\<close> and every crystal frequency other
  than 0, \<^verbatim>\<open>sx127X_setLoRaFreq\<close> writes three bytes whose big-endian value is
  \<open>fr \<times> 2^19 div f_xosc\<close>, the quotient truncated and not rounded to the nearest
  integer, reduced modulo \<open>2^24\<close>; the 64-bit product \<open>fr \<times> 2^19\<close> does not overflow.
\<close>

theorem setLoRaFreq_truncates:
  assumes "f_xosc \<noteq> 0"
  shows "\<exists>c'. sx127X_setLoRaFreq c fr f_xosc = Some c'
           \<and> unat (frf_read c') = (unat fr * 2 ^ 19 div unat f_xosc) mod 2 ^ 24
           \<and> unat ((ucast fr :: u64) * POW_2_19) = unat fr * 2 ^ 19"
proof -
  from frf_of_unat [OF assms] obtain frt where
    frt: "frf_of fr f_xosc = Some frt"
    and v: "unat frt = (unat fr * 2 ^ 19 div unat f_xosc) mod 4294967296"
    by blast
  from frt obtain c' where c': "sx127X_setLoRaFreq c fr f_xosc = Some c'"
    by (simp add: sx127X_setLoRaFreq_def)
  have "unat (frf_read c') = unat frt mod 16777216"
    using c' frt by (rule regs_frf_written)
  also have "\<dots> = (unat fr * 2 ^ 19 div unat f_xosc) mod 16777216"
    unfolding v by (simp add: mod_mod_cancel)
  finally show ?thesis using c' by (simp add: product_fits)
qed

text \<open>
  Claim C5, as stated, fails: the value is not rounded to the nearest integer. For
  869.525 MHz and the 32 MHz crystal the quotient is 14246297.6; the code writes
  14246297 (0xD9, 0x61, 0x99) and the nearest integer is 14246298.
\<close>

theorem setLoRaFreq_869525000_rounds_down:
  "map_option frf_read (sx127X_setLoRaFreq (chip_of reset_regs []) 869525000 F_XOSC) = Some 14246297
   \<and> map_option wlog (sx127X_setLoRaFreq (chip_of reset_regs []) 869525000 F_XOSC) =
       Some [(Following (Following SX127X_REG_FRF_MSB), 0x99), (Following SX127X_REG_FRF_MSB, 0x61),
             (SX127X_REG_FRF_MSB, 0xD9)]
   \<and> spec_frf_nearest 869525000 (unat F_XOSC) = 14246298"
  by (simp add: sx127X_setLoRaFreq_def frf_of_def frf_loop_3 frf_read_regs hw_write_def
      F_XOSC_def POW_2_19_def spec_frf_nearest_def chip_of_def)

theorem setLoRaFreq_truncates_witness:
  "F_XOSC \<noteq> 0
   \<and> (\<exists>c'. sx127X_setLoRaFreq (chip_of reset_regs []) 434000000 F_XOSC = Some c'
          \<and> unat (frf_read c') = 7110656)"
  using setLoRaFreq_truncates [of F_XOSC "chip_of reset_regs []" 434000000]
  by (auto simp add: F_XOSC_def)


section \<open>Receive: polling and classification\<close>

lemma regs_msleep20_other:
  "r \<noteq> SX127X_REG_IRQ_FLAGS \<Longrightarrow> regs (msleep20 c) r = regs c r"
  by (simp add: msleep20_def split: list.splits)

lemma wlog_msleep20 [simp]: "wlog (msleep20 c) = wlog c"
  by (simp add: msleep20_def split: list.splits)

lemma fifo_msleep20 [simp]: "fifo (msleep20 c) = fifo c"
  by (simp add: msleep20_def split: list.splits)

lemma slept_msleep20 [simp]: "slept (msleep20 c) = Suc (slept c)"
  by (simp add: msleep20_def split: list.splits)

lemma slept_setState [simp]: "slept (sx127X_setState c st) = slept c"
  by (simp add: sx127X_setState_def)

lemma pending_setState [simp]: "pending (sx127X_setState c st) = pending c"
  by (simp add: sx127X_setState_def)

lemma slept_clearLoRaFlag [simp]: "slept (sx127X_clearLoRaFlag c f) = slept c"
  by (simp add: sx127X_clearLoRaFlag_def)

lemma pending_clearLoRaFlag [simp]: "pending (sx127X_clearLoRaFlag c f) = pending c"
  by (simp add: sx127X_clearLoRaFlag_def)

lemma slept_rx_prepare [simp]: "slept (rx_prepare h c) = slept c"
  by (simp add: rx_prepare_def sx127X_clearLoRaAllFlag_def Let_def)

lemma pending_rx_prepare [simp]: "pending (rx_prepare h c) = pending c"
  by (simp add: rx_prepare_def sx127X_clearLoRaAllFlag_def Let_def)

lemma rx_wait_done: "rx_wait h 250 flag c = (flag, c)"
  by (simp add: rx_wait.simps)

lemma rx_wait_seen:
  "timeout < 250 \<Longrightarrow> sx127X_getLoRaFlag c (rx_mask h) \<noteq> 0 \<Longrightarrow>
     rx_wait h timeout flag c = (sx127X_getLoRaFlag c (rx_mask h), c)"
  by (simp add: rx_wait.simps)

lemma rx_wait_sleep:
  "timeout < 250 \<Longrightarrow> sx127X_getLoRaFlag c (rx_mask h) = 0 \<Longrightarrow>
     rx_wait h timeout flag c = rx_wait h (timeout + 1) 0 (msleep20 c)"
  by (subst rx_wait.simps) simp

lemma rx_wait_poll:
  "timeout \<le> 250 \<Longrightarrow> timeout < 250 \<or> flag = 0 \<Longrightarrow>
     rx_wait h timeout flag c = (flag', c') \<Longrightarrow>
       slept c \<le> slept c' \<and> slept c' \<le> slept c + (250 - timeout)
       \<and> ((flag' = 0) = (slept c' = slept c + (250 - timeout)))
       \<and> (flag' \<noteq> 0 \<longrightarrow> flag' = sx127X_getLoRaFlag c' (rx_mask h))
       \<and> wlog c' = wlog c"
proof (induction h timeout flag c rule: rx_wait.induct)
  case (1 h timeout flag c)
  show ?case
  proof (cases "timeout < 250")
    case False
    with "1.prems" have "timeout = 250" "flag = 0" by simp_all
    with "1.prems"(3) show ?thesis by (simp add: rx_wait_done)
  next
    case lt: True
    show ?thesis
    proof (cases "sx127X_getLoRaFlag c (rx_mask h) = 0")
      case False
      with lt "1.prems"(3) show ?thesis by (auto simp add: rx_wait_seen)
    next
      case True
      with lt "1.prems"(3) have run: "rx_wait h (timeout + 1) 0 (msleep20 c) = (flag', c')"
        by (simp add: rx_wait_sleep)
      from True have "rx_wait h (timeout + 1) (sx127X_getLoRaFlag c (rx_mask h)) (msleep20 c) = (flag', c')"
        using run by simp
      with "1.IH" [OF lt True] lt True
      have "slept (msleep20 c) \<le> slept c' \<and> slept c' \<le> slept (msleep20 c) + (250 - (timeout + 1))
       \<and> ((flag' = 0) = (slept c' = slept (msleep20 c) + (250 - (timeout + 1))))
       \<and> (flag' \<noteq> 0 \<longrightarrow> flag' = sx127X_getLoRaFlag c' (rx_mask h))
       \<and> wlog c' = wlog (msleep20 c)"
        by simp
      with lt show ?thesis by auto
    qed
  qed
qed


lemma or_FF: "x OR 0xFF = (0xFF :: u8)"
proof -
  have m: "(0xFF :: u8) = mask 8" by (simp add: mask_eq_exp_minus_1)
  show ?thesis unfolding m by (rule bit_word_eqI) (auto simp add: bit_simps)
qed

lemma and_rx_mask:
  "(x AND (a OR b OR c)) AND a = x AND (a :: u8)"
  by (rule bit_word_eqI) (auto simp add: bit_simps)

lemma wlog_clearLoRaAllFlag:
  "wlog (sx127X_clearLoRaAllFlag c) = (SX127X_REG_IRQ_FLAGS, 0xFF) # wlog c"
  by (simp only: sx127X_clearLoRaAllFlag_def wlog_clearLoRaFlag or_FF)

lemma flags_clearLoRaAllFlag:
  "sx127X_getLoRaAllFlag (sx127X_clearLoRaAllFlag c) = 0"
  by (simp add: sx127X_clearLoRaAllFlag_def sx127X_getLoRaAllFlag_def irq_after_clear)

lemma readLoRaData_count:
  "sx127X_readLoRaData c len = (n, buf, c') \<Longrightarrow> n \<le> len"
  by (auto simp add: sx127X_readLoRaData_def Let_def split: prod.splits if_splits)

lemma loraspi_read_unfold:
  assumes "rx_wait h 0 0 (rx_prepare h c) = (flag, c2)"
  shows "loraspi_read h lrdata c sz =
    (let r = (if flag = 0 \<or> flag AND SX127X_FLAG_RXTIMEOUT h \<noteq> 0 then Inl ENODATA else Inr 0);
         r = (if sx127X_getLoRaFlag c2 (SX127X_FLAG_PAYLOADCRCERROR h) \<noteq> 0 then Inl EBADMSG else r);
         (r, user, lrdata, c3) =
            (if r = Inr 0
             then (let lrdata = lrdata\<lparr>rx_buf := replicate (bufmaxlen lrdata) 0\<rparr>;
                       sz = (if bufmaxlen lrdata < sz then bufmaxlen lrdata else sz);
                       (n, data, c3) = sx127X_readLoRaData c2 sz;
                       lrdata = lrdata\<lparr>rx_buf := data @ drop n (rx_buf lrdata)\<rparr>
                   in (Inr n, (if n > 0 then take n (rx_buf lrdata) else []), lrdata, c3))
             else (r, [], lrdata, c2))
      in (r, user, lrdata, sx127X_clearLoRaAllFlag c3))"
  using assms by (simp add: loraspi_read_def Let_def)

text \<open>
  Claim C7. \<^verbatim>\<open>loraspi_read\<close> polls the three monitored flags at most 250 times, sleeping
  20 ms after each poll that sees none; \<open>flag\<close> is what the last poll saw and \<open>c2\<close> the
  chip at that moment. No flag was seen exactly when all 250 sleeps were used. If the
  PayloadCRCError flag is set the result is \<open>EBADMSG\<close>, whatever else holds; otherwise,
  if no flag was seen within the bound or the RXTimeout flag is set, the result is
  \<open>ENODATA\<close>; otherwise it is a byte count of at most the size asked for. In every
  case the last bus access writes 0xFF to the flags register and no flag is set when
  the function returns.
\<close>

theorem loraspi_read_classifies:
  assumes poll: "rx_wait h 0 0 (rx_prepare h c) = (flag, c2)"
      and run: "loraspi_read h lrdata c sz = (r, user, lrdata', c')"
  shows "slept c2 \<le> slept c + 250
     \<and> ((flag = 0) = (slept c2 = slept c + 250))
     \<and> (flag \<noteq> 0 \<longrightarrow> flag = sx127X_getLoRaAllFlag c2 AND rx_mask h)
     \<and> (sx127X_getLoRaAllFlag c2 AND SX127X_FLAG_PAYLOADCRCERROR h \<noteq> 0 \<longrightarrow> r = Inl EBADMSG)
     \<and> (sx127X_getLoRaAllFlag c2 AND SX127X_FLAG_PAYLOADCRCERROR h = 0 \<longrightarrow>
          flag = 0 \<or> sx127X_getLoRaAllFlag c2 AND SX127X_FLAG_RXTIMEOUT h \<noteq> 0 \<longrightarrow> r = Inl ENODATA)
     \<and> (sx127X_getLoRaAllFlag c2 AND SX127X_FLAG_PAYLOADCRCERROR h = 0 \<longrightarrow>
          flag \<noteq> 0 \<longrightarrow> sx127X_getLoRaAllFlag c2 AND SX127X_FLAG_RXTIMEOUT h = 0 \<longrightarrow>
          (\<exists>n \<le> sz. r = Inr n))
     \<and> sx127X_getLoRaAllFlag c' = 0
     \<and> hd (wlog c') = (SX127X_REG_IRQ_FLAGS, 0xFF)"
proof -
  let ?irq = "sx127X_getLoRaAllFlag c2"
  from rx_wait_poll [OF _ _ poll]
  have bound: "slept c2 \<le> slept c + 250"
    and none: "(flag = 0) = (slept c2 = slept c + 250)"
    and seen: "flag \<noteq> 0 \<longrightarrow> flag = ?irq AND rx_mask h"
    by (simp_all add: sx127X_getLoRaFlag_def)
  have timeout_bit: "flag AND SX127X_FLAG_RXTIMEOUT h = ?irq AND SX127X_FLAG_RXTIMEOUT h" if "flag \<noteq> 0"
    using seen that by (simp add: rx_mask_def and_rx_mask)
  note unf = run [unfolded loraspi_read_unfold [OF poll]]
  have crc: "?irq AND SX127X_FLAG_PAYLOADCRCERROR h \<noteq> 0 \<longrightarrow> r = Inl EBADMSG"
    using unf by (auto simp add: Let_def sx127X_getLoRaFlag_def split: prod.splits if_splits)
  have nodata: "?irq AND SX127X_FLAG_PAYLOADCRCERROR h = 0 \<longrightarrow>
          flag = 0 \<or> ?irq AND SX127X_FLAG_RXTIMEOUT h \<noteq> 0 \<longrightarrow> r = Inl ENODATA"
    using unf timeout_bit
    by (auto simp add: Let_def sx127X_getLoRaFlag_def split: prod.splits if_splits)
  have ok: "?irq AND SX127X_FLAG_PAYLOADCRCERROR h = 0 \<longrightarrow>
          flag \<noteq> 0 \<longrightarrow> ?irq AND SX127X_FLAG_RXTIMEOUT h = 0 \<longrightarrow> (\<exists>n \<le> sz. r = Inr n)"
    using unf timeout_bit
    by (auto simp add: Let_def sx127X_getLoRaFlag_def split: prod.splits if_splits
        dest!: readLoRaData_count)
  have "\<exists>c3. c' = sx127X_clearLoRaAllFlag c3"
    using unf by (auto simp add: Let_def split: prod.splits if_splits)
  then obtain c3 where c': "c' = sx127X_clearLoRaAllFlag c3" ..
  have cleared: "sx127X_getLoRaAllFlag c' = 0"
    unfolding c' by (rule flags_clearLoRaAllFlag)
  have last: "hd (wlog c') = (SX127X_REG_IRQ_FLAGS, 0xFF)"
    unfolding c' by (simp add: wlog_clearLoRaAllFlag)
  from bound none seen crc nodata ok cleared last show ?thesis by blast
qed


lemmas chip_eval =
  rx_wait.simps rx_prepare_def sx127X_getState_def sx127X_getMode_def semtech_h_def
  chip_of_def reset_regs_def sx127X_setState_def sx127X_clearLoRaAllFlag_def sx127X_clearLoRaFlag_def
  sx127X_getLoRaAllFlag_def sx127X_getLoRaFlag_def rx_mask_def write1_def hw_write_def msleep20_def

lemma crc_run:
  "rx_wait semtech_h 0 0 (rx_prepare semtech_h (chip_of reset_regs [0x00, 0x60])) = (f, c2)
    \<Longrightarrow> f = 0x60 \<and> sx127X_getLoRaAllFlag c2 = 0x60 \<and> slept c2 = 2"
  by (auto simp add: chip_eval)

lemma timeout_run:
  "rx_wait semtech_h 0 0 (rx_prepare semtech_h (chip_of reset_regs [0x80])) = (f, c2)
    \<Longrightarrow> f = 0x80 \<and> sx127X_getLoRaAllFlag c2 = 0x80 \<and> slept c2 = 1"
  by (auto simp add: chip_eval)

theorem loraspi_read_classifies_witness:
  "fst (loraspi_read semtech_h lrdata0 (chip_of reset_regs [0x00, 0x60]) 16) = Inl EBADMSG
   \<and> fst (loraspi_read semtech_h lrdata0 (chip_of reset_regs [0x80]) 16) = Inl ENODATA
   \<and> sx127X_getLoRaAllFlag (snd (snd (snd (loraspi_read semtech_h lrdata0 (chip_of reset_regs [0x80]) 16)))) = 0"
proof -
  let ?A = "chip_of reset_regs [0x00, 0x60]"
  let ?B = "chip_of reset_regs [0x80]"
  obtain fA cA where pA: "rx_wait semtech_h 0 0 (rx_prepare semtech_h ?A) = (fA, cA)"
    by (cases "rx_wait semtech_h 0 0 (rx_prepare semtech_h ?A)")
  obtain rA uA lA dA where rA: "loraspi_read semtech_h lrdata0 ?A 16 = (rA, uA, lA, dA)"
    by (cases "loraspi_read semtech_h lrdata0 ?A 16")
  obtain fB cB where pB: "rx_wait semtech_h 0 0 (rx_prepare semtech_h ?B) = (fB, cB)"
    by (cases "rx_wait semtech_h 0 0 (rx_prepare semtech_h ?B)")
  obtain rB uB lB dB where rB: "loraspi_read semtech_h lrdata0 ?B 16 = (rB, uB, lB, dB)"
    by (cases "loraspi_read semtech_h lrdata0 ?B 16")
  from loraspi_read_classifies [OF pA rA] crc_run [OF pA]
  have "rA = Inl EBADMSG" by (simp add: semtech_h_def)
  moreover
  from loraspi_read_classifies [OF pB rB] timeout_run [OF pB]
  have "rB = Inl ENODATA \<and> sx127X_getLoRaAllFlag dB = 0" by (simp add: semtech_h_def)
  ultimately show ?thesis by (simp add: rA rB)
qed


section \<open>Transmit: the wait budget\<close>

lemma pending_msleep20: "pending (msleep20 c) = tl (pending c)"
  by (simp add: msleep20_def split: list.splits)

lemma irq_msleep20:
  "regs (msleep20 c) SX127X_REG_IRQ_FLAGS =
     (case pending c of [] \<Rightarrow> regs c SX127X_REG_IRQ_FLAGS
      | e # es \<Rightarrow> regs c SX127X_REG_IRQ_FLAGS OR e)"
  by (simp add: msleep20_def split: list.splits)

lemma and_or_distrib: "(x OR e) AND m = (x AND m) OR (e AND (m :: u8))"
  by (rule bit_word_eqI) (auto simp add: bit_simps)

lemma tx_wait_last:
  "sx127X_getLoRaFlag c (SX127X_FLAG_TXDONE h) = 0 \<Longrightarrow> tx_wait h (Suc 0) n c = (0, c)"
  by simp

lemma tx_wait_seen:
  "sx127X_getLoRaFlag c (SX127X_FLAG_TXDONE h) \<noteq> 0 \<Longrightarrow> tx_wait h (Suc t) n c = (n, c)"
  by simp

lemma tx_wait_sleep:
  "sx127X_getLoRaFlag c (SX127X_FLAG_TXDONE h) = 0 \<Longrightarrow>
     tx_wait h (Suc (Suc t)) n c = tx_wait h (Suc t) n (msleep20 c)"
  by simp

lemma tx_wait_pending:
  "sx127X_getLoRaFlag c (SX127X_FLAG_TXDONE h) = 0 \<Longrightarrow> tx_wait h (Suc t) n c = (n', c') \<Longrightarrow>
     ((\<forall>e \<in> set (take t (pending c)). e AND SX127X_FLAG_TXDONE h = 0) \<longrightarrow>
         n' = 0 \<and> slept c' = slept c + t)
   \<and> ((\<exists>e \<in> set (take t (pending c)). e AND SX127X_FLAG_TXDONE h \<noteq> 0) \<longrightarrow> n' = n)
   \<and> slept c' \<le> slept c + t
   \<and> wlog c' = wlog c
   \<and> (\<forall>r. r \<noteq> SX127X_REG_IRQ_FLAGS \<longrightarrow> regs c' r = regs c r)"
proof (induction t arbitrary: c)
  case 0
  then show ?case by (simp del: tx_wait.simps add: tx_wait_last)
next
  case (Suc t)
  let ?m = "SX127X_FLAG_TXDONE h"
  let ?c1 = "msleep20 c"
  from Suc.prems have run: "tx_wait h (Suc t) n ?c1 = (n', c')"
    by (simp del: tx_wait.simps add: tx_wait_sleep)
  from Suc.prems(1) have irq0: "regs c SX127X_REG_IRQ_FLAGS AND ?m = 0"
    by (simp add: sx127X_getLoRaFlag_def sx127X_getLoRaAllFlag_def)
  show ?case
  proof (cases "sx127X_getLoRaFlag ?c1 ?m = 0")
    case True
    note ih = Suc.IH [OF True run]
    have hd_quiet: "\<forall>e \<in> set (take (Suc 0) (pending c)). e AND ?m = 0"
      using True irq0
      by (cases "pending c")
         (simp_all add: sx127X_getLoRaFlag_def sx127X_getLoRaAllFlag_def irq_msleep20 and_or_distrib)
    have split: "set (take (Suc t) (pending c)) = set (take (Suc 0) (pending c)) \<union> set (take t (pending ?c1))"
      by (cases "pending c") (simp_all add: pending_msleep20)
    from ih hd_quiet show ?thesis
      unfolding split by (auto simp add: regs_msleep20_other)
  next
    case False
    with run have res: "n' = n" "c' = ?c1"
      by (simp_all del: tx_wait.simps add: tx_wait_seen)
    have "\<exists>e \<in> set (take (Suc t) (pending c)). e AND ?m \<noteq> 0"
      using False irq0
      by (cases "pending c")
         (simp_all add: sx127X_getLoRaFlag_def sx127X_getLoRaAllFlag_def irq_msleep20 and_or_distrib)
    with res show ?thesis by (auto simp add: regs_msleep20_other)
  qed
qed


lemma write_reg_keeps:
  "pending (sx127X_write_reg c adr bs) = pending c \<and> slept (sx127X_write_reg c adr bs) = slept c"
  by (induction bs arbitrary: c adr) (simp_all add: hw_write_def)

lemma write_fifo_regs:
  "r \<noteq> SX127X_REG_FIFO_ADDR_PTR \<Longrightarrow> regs (sx127X_write_reg c SX127X_REG_FIFO bs) r = regs c r"
  by (induction bs arbitrary: c) (simp_all add: hw_write_def)

lemma sendLoRaData_frame:
  assumes "sx127X_sendLoRaData c buf len = (n, c')"
  shows "n = min len 255 \<and> pending c' = pending c \<and> slept c' = slept c
     \<and> (\<forall>r. r \<noteq> SX127X_REG_FIFO_ADDR_PTR \<longrightarrow> r \<noteq> SX127X_REG_PAYLOAD_LENGTH \<longrightarrow> regs c' r = regs c r)"
  using assms
  by (auto simp add: sx127X_sendLoRaData_def Let_def SX127X_MAX_FIFO_LENGTH_def write_reg_keeps
      regs_write1_plain write_fifo_regs)

lemma upper_keep: "((a AND 0xF8) OR (b AND 0x07)) AND 0xF8 = a AND (0xF8 :: u8)"
  unfolding mask_07 mask_F8 by (rule bit_word_eqI) (auto simp add: bit_simps)

lemma preamble_read:
  "fst (sx127X_read_reg c SX127X_REG_PREAMBLE_MSB 2) =
     [regs c SX127X_REG_PREAMBLE_MSB, regs c (Following SX127X_REG_PREAMBLE_MSB)]"
  by (simp add: numeral_2_eq_2 hw_read_def)

lemma be16_unat:
  fixes b0 b1 :: u8
  shows "unat (ucast b0 * 256 + ucast b1 :: u32) = unat b0 * 256 + unat b1"
  using u8_bound [of b0] u8_bound [of b1]
  by (simp add: unat_word_ariths unsigned_ucast_eq take_bit_eq_mod)

lemma preamble_regs:
  "unat (sx127X_getLoRaPreambleLen c) =
     unat (regs c SX127X_REG_PREAMBLE_MSB) * 256 + unat (regs c (Following SX127X_REG_PREAMBLE_MSB))"
  unfolding sx127X_getLoRaPreambleLen_def preamble_read Let_def by (simp add: be16_unat)

lemma tx_start_frame:
  "pending (tx_start h c buf len) = pending c
   \<and> slept (tx_start h c buf len) = slept c
   \<and> regs (tx_start h c buf len) SX127X_REG_IRQ_FLAGS = 0
   \<and> regs (tx_start h c buf len) SX127X_REG_OP_MODE AND 0xF8 = regs c SX127X_REG_OP_MODE AND 0xF8
   \<and> regs (tx_start h c buf len) SX127X_REG_PREAMBLE_MSB = regs c SX127X_REG_PREAMBLE_MSB
   \<and> regs (tx_start h c buf len) (Following SX127X_REG_PREAMBLE_MSB) = regs c (Following SX127X_REG_PREAMBLE_MSB)"
proof -
  let ?c1 = "sx127X_setState c (SX127X_STANDBY_MODE h)"
  let ?c2 = "write1 ?c1 SX127X_REG_FIFO_TX_BASE_ADDR 0x80"
  obtain n c3 where s: "sx127X_sendLoRaData ?c2 buf len = (n, c3)"
    by (cases "sx127X_sendLoRaData ?c2 buf len")
  note f = sendLoRaData_frame [OF s]
  show ?thesis
    using f
    by (simp add: tx_start_def Let_def s regs_setState irq_after_clear regs_write1_plain upper_keep)
qed

text \<open>When nothing was copied from the caller, the function returns 0 and the chip is as before.\<close>

lemma loraspi_write_nothing_copied:
  "sz \<le> status \<Longrightarrow> fst (loraspi_write h lrdata c buf sz status) = 0
     \<and> snd (snd (loraspi_write h lrdata c buf sz status)) = c"
  by (simp add: loraspi_write_def Let_def)

text \<open>
  Claim C8, as stated, fails for a write that hands over no byte. With a size of 0,
  \<^verbatim>\<open>copy_from_user\<close> leaves nothing uncopied, the guard \<^verbatim>\<open>status >= size\<close> holds and
  the function returns 0 at once: there is no bus access at all, and a chip that was
  in the standby state (1) is still in it, not in the RX-continuous state (5).
\<close>

theorem loraspi_write_size_0_stays_in_standby:
  "fst (loraspi_write semtech_h lrdata0 (chip_of reset_regs []) [] 0 0) = 0
   \<and> wlog (snd (snd (loraspi_write semtech_h lrdata0 (chip_of reset_regs []) [] 0 0))) = []
   \<and> sx127X_getState (snd (snd (loraspi_write semtech_h lrdata0 (chip_of reset_regs []) [] 0 0))) = 1
   \<and> SX127X_RXCONTINUOUS_MODE semtech_h = 5"
  by (simp add: loraspi_write_def Let_def chip_of_def reset_regs_def semtech_h_def
      sx127X_getState_def sx127X_getMode_def)

text \<open>
  Claim C8, amended. A transmit that got at least one byte from the caller, into a
  buffer that holds what was asked for, transfers \<open>n = min (sz - status) 255\<close> bytes and
  then polls the TX-done flag with a budget of \<open>n + p + 3\<close> polls, \<open>p\<close> being the
  preamble length in the chip, with a sleep of 20 ms between two polls. If the radio
  raises TX-done during none of the \<open>n + p + 2\<close> sleeps the budget allows, the function
  reports 0 bytes sent, having slept exactly that many times; if it raises TX-done
  during one of them, the function reports \<open>n\<close>. In both cases the last two bus
  accesses write the op-mode register, first with the standby state and then with the
  RX-continuous state, and that is the state the chip is left in.
\<close>

theorem loraspi_write_budget:
  assumes copied: "status < sz" and fits: "sz \<le> bufmaxlen lrdata"
      and run: "loraspi_write h lrdata c buf sz status = (sent, lrdata', c')"
  shows "let n = min (sz - status) 255;
             p = unat (sx127X_getLoRaPreambleLen c);
             budget = n + p + 3
         in ((\<forall>e \<in> set (take (budget - 1) (pending c)). e AND SX127X_FLAG_TXDONE h = 0) \<longrightarrow>
               sent = 0 \<and> slept c' = slept c + (budget - 1))
          \<and> ((\<exists>e \<in> set (take (budget - 1) (pending c)). e AND SX127X_FLAG_TXDONE h \<noteq> 0) \<longrightarrow>
               sent = n)
          \<and> slept c' \<le> slept c + (budget - 1)
          \<and> (\<exists>rest. wlog c' =
                (SX127X_REG_OP_MODE, (sx127X_getMode c AND 0xF8) OR (SX127X_RXCONTINUOUS_MODE h AND 0x07))
                # (SX127X_REG_OP_MODE, (sx127X_getMode c AND 0xF8) OR (SX127X_STANDBY_MODE h AND 0x07))
                # rest)
          \<and> sx127X_getState c' = SX127X_RXCONTINUOUS_MODE h AND 0x07"
proof -
  define n where "n = min (sz - status) 255"
  define p where "p = unat (sx127X_getLoRaPreambleLen c)"
  define txb where "txb = take (sz - status) buf @ drop (sz - status) (replicate (bufmaxlen lrdata) 0)"
  let ?c5 = "tx_start h c txb (sz - status)"
  let ?c1 = "sx127X_setState c (SX127X_STANDBY_MODE h)"
  let ?c2 = "write1 ?c1 SX127X_REG_FIFO_TX_BASE_ADDR 0x80"
  have unf: "loraspi_write h lrdata c buf sz status =
      (let (n, c3) = sx127X_sendLoRaData ?c2 txb (sz - status);
           c4 = sx127X_clearLoRaFlag c3 (SX127X_FLAG_TXDONE h);
           (n, c5) = (if n > 0
                      then (let c5 = sx127X_setState c4 (SX127X_TX_MODE h)
                            in tx_wait h (tx_budget n c5) n c5)
                      else (n, c4));
           c6 = sx127X_setState c5 (SX127X_STANDBY_MODE h);
           c7 = sx127X_setState c6 (SX127X_RXCONTINUOUS_MODE h)
       in (n, lrdata\<lparr>tx_buf := txb, tx_buflen := 0\<rparr>, c7))"
    using copied by (simp add: loraspi_write_def Let_def txb_def split_def del: tx_wait.simps)
  obtain n0 c3 where s: "sx127X_sendLoRaData ?c2 txb (sz - status) = (n0, c3)"
    by (cases "sx127X_sendLoRaData ?c2 txb (sz - status)")
  from sendLoRaData_frame [OF s] have n0: "n0 = n" by (simp add: n_def)
  from copied have npos: "0 < n" by (simp add: n_def)
  have c5: "sx127X_setState (sx127X_clearLoRaFlag c3 (SX127X_FLAG_TXDONE h)) (SX127X_TX_MODE h) = ?c5"
    by (simp add: tx_start_def Let_def s)
  note fr = tx_start_frame [of h c txb "sz - status"]
  define T where "T = n + p + 2"
  have bud: "tx_budget n ?c5 = Suc T"
    using fr by (simp add: tx_budget_def preamble_regs p_def T_def)
  obtain a c6 where w: "tx_wait h (Suc T) n ?c5 = (a, c6)"
    by (cases "tx_wait h (Suc T) n ?c5")
  have res: "loraspi_write h lrdata c buf sz status =
      (a, lrdata\<lparr>tx_buf := txb, tx_buflen := 0\<rparr>,
       sx127X_setState (sx127X_setState c6 (SX127X_STANDBY_MODE h)) (SX127X_RXCONTINUOUS_MODE h))"
    unfolding unf s n0 using npos by (simp add: Let_def c5 bud w del: tx_wait.simps)
  with run have a: "a = sent"
    and c': "c' = sx127X_setState (sx127X_setState c6 (SX127X_STANDBY_MODE h)) (SX127X_RXCONTINUOUS_MODE h)"
    by simp_all
  have quiet: "sx127X_getLoRaFlag ?c5 (SX127X_FLAG_TXDONE h) = 0"
    using fr by (simp add: sx127X_getLoRaFlag_def sx127X_getLoRaAllFlag_def)
  note tw = tx_wait_pending [OF quiet w [unfolded a]]
  from tw have same: "regs c6 SX127X_REG_OP_MODE = regs ?c5 SX127X_REG_OP_MODE" by simp
  from fr have pend: "pending ?c5 = pending c" and sl5: "slept ?c5 = slept c"
    and up5: "regs ?c5 SX127X_REG_OP_MODE AND 0xF8 = regs c SX127X_REG_OP_MODE AND 0xF8"
    by simp_all
  have op6: "regs c6 SX127X_REG_OP_MODE AND 0xF8 = sx127X_getMode c AND 0xF8"
    unfolding same up5 by (simp add: sx127X_getMode_def)
  have log: "wlog c' =
      (SX127X_REG_OP_MODE, (sx127X_getMode c AND 0xF8) OR (SX127X_RXCONTINUOUS_MODE h AND 0x07))
      # (SX127X_REG_OP_MODE, (sx127X_getMode c AND 0xF8) OR (SX127X_STANDBY_MODE h AND 0x07))
      # wlog c6"
    unfolding c' by (simp add: wlog_setState regs_setState upper_keep op6)
  have st: "sx127X_getState c' = SX127X_RXCONTINUOUS_MODE h AND 0x07"
    unfolding c' sx127X_getState_def sx127X_getMode_def
    by (simp add: regs_setState mode_field_lower)
  have sl: "slept c' = slept c6" unfolding c' by simp
  have T: "n + p + 3 - 1 = T" by (simp add: T_def)
  from tw have t1: "(\<forall>e \<in> set (take T (pending c)). e AND SX127X_FLAG_TXDONE h = 0) \<longrightarrow>
               sent = 0 \<and> slept c' = slept c + T"
    and t2: "(\<exists>e \<in> set (take T (pending c)). e AND SX127X_FLAG_TXDONE h \<noteq> 0) \<longrightarrow> sent = n"
    and t3: "slept c' \<le> slept c + T"
    unfolding pend sl5 sl by blast+
  from log have t4: "\<exists>rest. wlog c' =
      (SX127X_REG_OP_MODE, (sx127X_getMode c AND 0xF8) OR (SX127X_RXCONTINUOUS_MODE h AND 0x07))
      # (SX127X_REG_OP_MODE, (sx127X_getMode c AND 0xF8) OR (SX127X_STANDBY_MODE h AND 0x07))
      # rest" by blast
  from t1 t2 t3 t4 st show ?thesis
    unfolding Let_def n_def [symmetric] p_def [symmetric] T by blast
qed


lemma chip_of_sel:
  "regs (chip_of r es) = r" "pending (chip_of r es) = es" "slept (chip_of r es) = 0"
  "wlog (chip_of r es) = []"
  by (simp_all add: chip_of_def)

theorem loraspi_write_budget_witness:
  "(0 :: nat) < 3 \<and> 3 \<le> bufmaxlen lrdata0
   \<and> fst (loraspi_write semtech_h lrdata0 (chip_of reset_regs []) [1, 2, 3] 3 0) = 0
   \<and> slept (snd (snd (loraspi_write semtech_h lrdata0 (chip_of reset_regs []) [1, 2, 3] 3 0))) = 13
   \<and> sx127X_getState (snd (snd (loraspi_write semtech_h lrdata0 (chip_of reset_regs []) [1, 2, 3] 3 0))) = 5
   \<and> fst (loraspi_write semtech_h lrdata0 (chip_of reset_regs [0, 0, 8]) [1, 2, 3] 3 0) = 3"
proof -
  let ?A = "chip_of reset_regs []"
  let ?B = "chip_of reset_regs [0, 0, 8]"
  have lt: "(0 :: nat) < 3" by simp
  have fits: "3 \<le> bufmaxlen lrdata0" by (simp add: lrdata0_def)
  have pA: "unat (sx127X_getLoRaPreambleLen ?A) = 8"
    by (simp add: preamble_regs chip_of_sel reset_regs_def)
  have pB: "unat (sx127X_getLoRaPreambleLen ?B) = 8"
    by (simp add: preamble_regs chip_of_sel reset_regs_def)
  obtain sA lA cA where rA: "loraspi_write semtech_h lrdata0 ?A [1, 2, 3] 3 0 = (sA, lA, cA)"
    by (cases "loraspi_write semtech_h lrdata0 ?A [1, 2, 3] 3 0")
  obtain sB lB cB where rB: "loraspi_write semtech_h lrdata0 ?B [1, 2, 3] 3 0 = (sB, lB, cB)"
    by (cases "loraspi_write semtech_h lrdata0 ?B [1, 2, 3] 3 0")
  from loraspi_write_budget [OF lt fits rA]
  have "sA = 0 \<and> slept cA = 13 \<and> sx127X_getState cA = 5"
    by (simp add: pA Let_def chip_of_sel semtech_h_def)
  moreover
  from loraspi_write_budget [OF lt fits rB]
  have "sB = 3"
    by (simp add: pB Let_def chip_of_sel semtech_h_def)
  ultimately show ?thesis using fits by (simp add: rA rB)
qed


end
